theory Spec2Isabelle
  imports Complex_Main "HOL-Library.Word"
begin

unbundle bit_operations_syntax

section \<open>Data model of threads.h and the globals of threads.c\<close>

text \<open>
  The C type \<open>float\<close> is the type variable \<open>'f\<close>: its arithmetic and its order are
  the operations of whatever type stands for it, and the library functions
  (\<open>sqrtf\<close>, \<open>cosf\<close>, ...) and casts are passed in. Nothing about rounding is assumed,
  so every theorem holds for any deterministic implementation of the operations.
  Machine integers that stay far from their bounds (\<open>int\<close> counters and indices,
  \<open>int16_t\<close> screen coordinates, the \<open>int8_t\<close> flag) are \<open>int\<close>; raw wire words and
  characters are words of their width.
\<close>

definition MAX_AIRCRAFTS :: nat where
  "MAX_AIRCRAFTS = 200"

definition MESSAGE_SIZE :: nat where
  "MESSAGE_SIZE = 28"

record 'f AircraftData_t =
  callsign :: "8 word list"
  longitude :: 'f
  latitude :: 'f
  altitude :: 'f
  velocity :: 'f
  heading :: 'f
  screen_x :: int
  screen_y :: int
  on_screen :: int

text \<open>
  The globals of threads.c that the pipeline reads and writes. A semaphore is the
  number of signals issued on it (the scheduler that consumes them is not part of
  the sources).
\<close>

record 'f globals =
  display_range_km :: int
  stagingAircrafts :: "'f AircraftData_t list"
  stagingAircraftCount :: int
  currentAircrafts :: "'f AircraftData_t list"
  currentAircraftCount :: int
  selectedAircraft :: int
  sem_INFO_DISPLAY :: nat
  sem_MAIN_DISPLAY :: nat

text \<open>
  Both arrays have \<open>MAX_AIRCRAFTS\<close> slots and both counters stay within them: the
  decoder appends only while \<open>stagingAircraftCount < MAX_AIRCRAFTS\<close>, and the live
  counter is only ever assigned from the staging counter.
\<close>

definition arrays_ok :: "'f globals \<Rightarrow> bool" where
  "arrays_ok s =
     (length (stagingAircrafts s) = MAX_AIRCRAFTS \<and>
      length (currentAircrafts s) = MAX_AIRCRAFTS \<and>
      0 \<le> stagingAircraftCount s \<and> stagingAircraftCount s \<le> int MAX_AIRCRAFTS \<and>
      0 \<le> currentAircraftCount s \<and> currentAircraftCount s \<le> int MAX_AIRCRAFTS)"

section \<open>Commit: the critical section of \<open>Update_Current_Aircrafts_Thread\<close>\<close>

text \<open>
  \<open>SelectedCallSign\<close> is a \<open>char *\<close>. It holds either the address of the string
  literal \<open>"N/A"\<close> or the address of the \<open>callsign\<close> array inside one slot of
  \<open>currentAircrafts\<close>. The test \<open>currentAircrafts[i].callsign == SelectedCallSign\<close>
  compares these addresses, not the characters stored there, so a pointer value is
  modelled by the object it points to.
\<close>

datatype char_ptr = Literal_NA | Current_callsign nat

definition capture_SelectedCallSign :: "'f globals \<Rightarrow> char_ptr" where
  "capture_SelectedCallSign s =
     (if selectedAircraft s \<noteq> - 1
      then fold (\<lambda>i p. if selectedAircraft s = int i then Current_callsign i else p)
             [0..<nat (currentAircraftCount s)] Literal_NA
      else Literal_NA)"

definition replace_step :: "char_ptr \<Rightarrow> nat \<Rightarrow> 'f globals \<Rightarrow> 'f globals" where
  "replace_step p i s =
     (let s1 = s\<lparr>currentAircrafts := (currentAircrafts s)[i := stagingAircrafts s ! i]\<rparr>
      in if Current_callsign i = p then s1\<lparr>selectedAircraft := int i\<rparr> else s1)"

definition commit :: "'f globals \<Rightarrow> 'f globals" where
  "commit s =
     (let p = capture_SelectedCallSign s;
          s1 = fold (replace_step p) [0..<nat (stagingAircraftCount s)] s
      in s1\<lparr>currentAircraftCount := stagingAircraftCount s1, stagingAircraftCount := 0\<rparr>)"

text \<open>
  The pointer captured before the copy is the literal or the \<open>callsign\<close> array of the
  selected slot, never that of another slot.
\<close>

definition points_at_selected :: "char_ptr \<Rightarrow> int \<Rightarrow> bool" where
  "points_at_selected p sel = (case p of Literal_NA \<Rightarrow> True | Current_callsign j \<Rightarrow> int j = sel)"

section \<open>What the sources take from outside\<close>

text \<open>
  The float library, the casts between floats and integers, the reading of a decimal
  literal as a float, \<open>FLT_MAX\<close> of float.h and the display macros \<open>X_MAX\<close> and
  \<open>Y_MAX\<close> of the display driver's header are not in the sources. They are the fields
  of a \<open>platform\<close> that every function using them receives.
\<close>

record 'f platform =
  flit :: "rat \<Rightarrow> 'f"
  float_of_int :: "int \<Rightarrow> 'f"
  int16_of_float :: "'f \<Rightarrow> int"
  sqrtf :: "'f \<Rightarrow> 'f"
  cosf :: "'f \<Rightarrow> 'f"
  sinf :: "'f \<Rightarrow> 'f"
  atan2f :: "'f \<Rightarrow> 'f \<Rightarrow> 'f"
  fabsf :: "'f \<Rightarrow> 'f"
  FLT_MAX :: 'f
  X_MAX :: int
  Y_MAX :: int

text \<open>Integer division of C truncates towards zero.\<close>

definition c_div :: "int \<Rightarrow> int \<Rightarrow> int" where
  "c_div a b = sgn a * sgn b * (\<bar>a\<bar> div \<bar>b\<bar>)"

text \<open>Storing an \<open>int\<close> into an \<open>int16_t\<close> keeps the low 16 bits, read as two's complement.\<close>

definition int16 :: "int \<Rightarrow> int" where
  "int16 x = (x + 32768) mod 65536 - 32768"

section \<open>Projection: \<open>recalculate_screen_positions\<close>\<close>

definition M_PI :: rat where
  "M_PI = 314159265358979323846 / 100000000000000000000"

definition CENTER_LATITUDE :: "'f platform \<Rightarrow> 'f" where
  "CENTER_LATITUDE E = flit E (296465 / 10000)"

definition CENTER_LONGITUDE :: "'f platform \<Rightarrow> 'f" where
  "CENTER_LONGITUDE E = flit E (- 823533 / 10000)"

definition radar_center_x :: "'f platform \<Rightarrow> int" where
  "radar_center_x E = int16 (c_div (X_MAX E) 2)"

definition radar_center_y :: int where
  "radar_center_y = int16 (70 + c_div (int16 (279 - 70 + 1)) 2)"

definition distance_latitude_km ::
  "'f::{plus,minus,times,inverse,ord} platform \<Rightarrow> 'f AircraftData_t \<Rightarrow> 'f" where
  "distance_latitude_km E aircraft =
     (let delta_latitude = latitude aircraft - CENTER_LATITUDE E;
          km_per_degree_lat = flit E (11132 / 100)
      in delta_latitude * km_per_degree_lat)"

definition distance_longitude_km ::
  "'f::{plus,minus,times,inverse,ord} platform \<Rightarrow> 'f AircraftData_t \<Rightarrow> 'f" where
  "distance_longitude_km E aircraft =
     (let delta_longitude = longitude aircraft - CENTER_LONGITUDE E;
          latitude_in_radians = CENTER_LATITUDE E * (flit E M_PI / flit E 180);
          km_per_degree_lon = flit E (11132 / 100) * cosf E latitude_in_radians
      in delta_longitude * km_per_degree_lon)"

definition distance_from_center ::
  "'f::{plus,minus,times,inverse,ord} platform \<Rightarrow> 'f AircraftData_t \<Rightarrow> 'f" where
  "distance_from_center E aircraft =
     sqrtf E (distance_latitude_km E aircraft * distance_latitude_km E aircraft +
              distance_longitude_km E aircraft * distance_longitude_km E aircraft)"

definition angle ::
  "'f::{plus,minus,times,inverse,ord} platform \<Rightarrow> 'f AircraftData_t \<Rightarrow> 'f" where
  "angle E aircraft =
     atan2f E (distance_latitude_km E aircraft) (distance_longitude_km E aircraft)"

text \<open>The test \<open>distance_from_center > display_range_km\<close>, the range converted to float.\<close>

definition beyond_display_range ::
  "'f::{plus,minus,times,inverse,ord} platform \<Rightarrow> int \<Rightarrow> 'f AircraftData_t \<Rightarrow> bool" where
  "beyond_display_range E range_km aircraft =
     (distance_from_center E aircraft > float_of_int E range_km)"

text \<open>The pixel offsets \<open>(int16_t)(pixel_distance * cosf(angle))\<close> and its sine twin.\<close>

definition pixel_distance ::
  "'f::{plus,minus,times,inverse,ord} platform \<Rightarrow> int \<Rightarrow> 'f AircraftData_t \<Rightarrow> 'f" where
  "pixel_distance E range_km aircraft =
     (let max_pixel_radius = flit E 100;
          scale = max_pixel_radius / float_of_int E range_km
      in distance_from_center E aircraft * scale)"

definition pixel_offset_x ::
  "'f::{plus,minus,times,inverse,ord} platform \<Rightarrow> int \<Rightarrow> 'f AircraftData_t \<Rightarrow> int" where
  "pixel_offset_x E range_km aircraft =
     int16_of_float E (pixel_distance E range_km aircraft * cosf E (angle E aircraft))"

definition pixel_offset_y ::
  "'f::{plus,minus,times,inverse,ord} platform \<Rightarrow> int \<Rightarrow> 'f AircraftData_t \<Rightarrow> int" where
  "pixel_offset_y E range_km aircraft =
     int16_of_float E (pixel_distance E range_km aircraft * sinf E (angle E aircraft))"

text \<open>The record written back when the aircraft is within range.\<close>

definition map_to_screen ::
  "'f::{plus,minus,times,inverse,ord} platform \<Rightarrow> int \<Rightarrow> 'f AircraftData_t \<Rightarrow> 'f AircraftData_t" where
  "map_to_screen E range_km aircraft =
     (let screen_x_local = int16 (radar_center_x E + pixel_offset_x E range_km aircraft);
          screen_y_local = int16 (radar_center_y - pixel_offset_y E range_km aircraft)
      in aircraft\<lparr>on_screen := 1,
                   screen_x := int16 \<bar>screen_x_local\<bar>,
                   screen_y := int16 \<bar>screen_y_local\<bar>\<rparr>)"

text \<open>One pass of the loop body, for index \<open>i\<close>.\<close>

definition recalculate_step ::
  "'f::{plus,minus,times,inverse,ord} platform \<Rightarrow> nat \<Rightarrow> 'f globals \<Rightarrow> 'f globals" where
  "recalculate_step E i s =
     (let aircraft = currentAircrafts s ! i
      in if beyond_display_range E (display_range_km s) aircraft
         then (let s1 = s\<lparr>currentAircrafts := (currentAircrafts s)[i := aircraft\<lparr>on_screen := 0\<rparr>]\<rparr>
               in if int i = selectedAircraft s1
                  then s1\<lparr>selectedAircraft := - 1, sem_INFO_DISPLAY := Suc (sem_INFO_DISPLAY s1)\<rparr>
                  else s1)
         else s\<lparr>currentAircrafts :=
                   (currentAircrafts s)[i := map_to_screen E (display_range_km s) aircraft]\<rparr>)"

definition recalculate_screen_positions ::
  "'f::{plus,minus,times,inverse,ord} platform \<Rightarrow> 'f globals \<Rightarrow> 'f globals" where
  "recalculate_screen_positions E s =
     fold (recalculate_step E) [0..<nat (currentAircraftCount s)] s"

text \<open>
  What the loop body does to one record, whatever its index: the record after the pass
  depends on the record before it and on the display range only.
\<close>

definition project_aircraft ::
  "'f::{plus,minus,times,inverse,ord} platform \<Rightarrow> int \<Rightarrow> 'f AircraftData_t \<Rightarrow> 'f AircraftData_t" where
  "project_aircraft E range_km aircraft =
     (if beyond_display_range E range_km aircraft then aircraft\<lparr>on_screen := 0\<rparr>
      else map_to_screen E range_km aircraft)"

definition selection_lost ::
  "'f::{plus,minus,times,inverse,ord} platform \<Rightarrow> 'f globals \<Rightarrow> nat \<Rightarrow> bool" where
  "selection_lost E s n =
     (0 \<le> selectedAircraft s \<and> selectedAircraft s < int n \<and>
      beyond_display_range E (display_range_km s) (currentAircrafts s ! nat (selectedAircraft s)))"

definition after_recalculate ::
  "'f::{plus,minus,times,inverse,ord} platform \<Rightarrow> nat \<Rightarrow> 'f globals \<Rightarrow> 'f globals" where
  "after_recalculate E n s =
     s\<lparr>currentAircrafts :=
         map (project_aircraft E (display_range_km s)) (take n (currentAircrafts s)) @
         drop n (currentAircrafts s),
       selectedAircraft := (if selection_lost E s n then - 1 else selectedAircraft s),
       sem_INFO_DISPLAY := (if selection_lost E s n then Suc (sem_INFO_DISPLAY s) else sem_INFO_DISPLAY s)\<rparr>"

section \<open>Directional selection: \<open>closest_aircraft_by_angle\<close>\<close>

definition MIDPOINT :: int where
  "MIDPOINT = int16 (c_div 4096 2)"

definition goingWest :: "int \<Rightarrow> int \<Rightarrow> bool" where
  "goingWest dx dy = (\<bar>dx\<bar> > \<bar>dy\<bar> \<and> dx > 0)"

definition goingEast :: "int \<Rightarrow> int \<Rightarrow> bool" where
  "goingEast dx dy = (\<bar>dx\<bar> > \<bar>dy\<bar> \<and> dx < 0)"

definition goingSouth :: "int \<Rightarrow> int \<Rightarrow> bool" where
  "goingSouth dx dy = (\<bar>dy\<bar> > \<bar>dx\<bar> \<and> dy > 0)"

definition goingNorth :: "int \<Rightarrow> int \<Rightarrow> bool" where
  "goingNorth dx dy = (\<bar>dy\<bar> > \<bar>dx\<bar> \<and> dy < 0)"

text \<open>
  One pass of the loop body for index \<open>i\<close>; the pair is \<open>(closestIndex, minDifference)\<close>.
\<close>

definition closest_step ::
  "'f::{minus,ord} platform \<Rightarrow> 'f globals \<Rightarrow> int \<Rightarrow> int \<Rightarrow> 'f \<Rightarrow> 'f \<Rightarrow> nat \<Rightarrow>
   int \<times> 'f \<Rightarrow> int \<times> 'f" where
  "closest_step E s dx dy refLatitude refLongitude i acc =
     (if int i = selectedAircraft s then acc
      else let aircraft = currentAircrafts s ! i in
        if on_screen aircraft = 0 then acc
        else let deltaLon = longitude aircraft - refLongitude;
                 deltaLat = latitude aircraft - refLatitude
             in if goingEast dx dy \<and> deltaLon > flit E 0
                then (if deltaLon < snd acc then (int i, deltaLon) else acc)
                else if goingWest dx dy \<and> deltaLon < flit E 0
                then (let diff = fabsf E deltaLon
                      in if diff < snd acc then (int i, diff) else acc)
                else if goingNorth dx dy \<and> deltaLat > flit E 0
                then (if deltaLat < snd acc then (int i, deltaLat) else acc)
                else if goingSouth dx dy \<and> deltaLat < flit E 0
                then (let diff = fabsf E deltaLat
                      in if diff < snd acc then (int i, diff) else acc)
                else acc)"

definition closest_aircraft_by_angle ::
  "'f::{minus,ord} platform \<Rightarrow> 'f globals \<Rightarrow> int \<Rightarrow> int \<Rightarrow> int" where
  "closest_aircraft_by_angle E s joystick_dx joystick_dy =
     (if selectedAircraft s = - 1 then - 1
      else let dx = joystick_dx - MIDPOINT;
               dy = joystick_dy - MIDPOINT;
               refLatitude = latitude (currentAircrafts s ! nat (selectedAircraft s));
               refLongitude = longitude (currentAircrafts s ! nat (selectedAircraft s));
               closestIndex =
                 fst (fold (closest_step E s dx dy refLatitude refLongitude)
                        [0..<nat (currentAircraftCount s)] (- 1, FLT_MAX E))
           in if closestIndex = - 1 then selectedAircraft s else closestIndex)"

text \<open>
  The loop body read as one step of a running minimum: whether record \<open>i\<close> passes the
  direction test of the branch the flags select, the value that branch compares
  (\<open>deltaLon\<close>, \<open>deltaLat\<close> or their \<open>fabsf\<close>), and whether the record enters the
  comparison at all. These three are used in the proofs only.
\<close>

definition lies_toward :: "'f::{minus,ord} platform \<Rightarrow> 'f globals \<Rightarrow> int \<Rightarrow> int \<Rightarrow> nat \<Rightarrow> bool" where
  "lies_toward E s joystick_dx joystick_dy i =
     (let dx = joystick_dx - MIDPOINT;
          dy = joystick_dy - MIDPOINT;
          selected = currentAircrafts s ! nat (selectedAircraft s);
          deltaLon = longitude (currentAircrafts s ! i) - longitude selected;
          deltaLat = latitude (currentAircrafts s ! i) - latitude selected
      in if goingEast dx dy then deltaLon > flit E 0
         else if goingWest dx dy then deltaLon < flit E 0
         else if goingNorth dx dy then deltaLat > flit E 0
         else if goingSouth dx dy then deltaLat < flit E 0
         else False)"

definition delta_toward :: "'f::{minus,ord} platform \<Rightarrow> 'f globals \<Rightarrow> int \<Rightarrow> int \<Rightarrow> nat \<Rightarrow> 'f" where
  "delta_toward E s joystick_dx joystick_dy i =
     (let dx = joystick_dx - MIDPOINT;
          dy = joystick_dy - MIDPOINT;
          selected = currentAircrafts s ! nat (selectedAircraft s);
          deltaLon = longitude (currentAircrafts s ! i) - longitude selected;
          deltaLat = latitude (currentAircrafts s ! i) - latitude selected
      in if goingEast dx dy then deltaLon
         else if goingWest dx dy then fabsf E deltaLon
         else if goingNorth dx dy then deltaLat
         else fabsf E deltaLat)"

definition candidate :: "'f::{minus,ord} platform \<Rightarrow> 'f globals \<Rightarrow> int \<Rightarrow> int \<Rightarrow> nat \<Rightarrow> bool" where
  "candidate E s joystick_dx joystick_dy i =
     (i < nat (currentAircraftCount s) \<and> int i \<noteq> selectedAircraft s \<and>
      on_screen (currentAircrafts s ! i) \<noteq> 0 \<and> lies_toward E s joystick_dx joystick_dy i)"

text \<open>
  The words of the selection rule, independent of the code's flags. The signed deltas
  of record \<open>i\<close> relative to the selected record; the records the rule ranges over
  (live, not the selected one, visible); and the rule itself for a result \<open>r\<close>: among
  the eligible records that qualify, \<open>r\<close> is the index of one with the smallest delta
  (the first such in scan order) and is not the selected index, and when no eligible
  record qualifies \<open>r\<close> is the current selection.
\<close>

definition delta_longitude :: "'f::minus globals \<Rightarrow> nat \<Rightarrow> 'f" where
  "delta_longitude s i =
     longitude (currentAircrafts s ! i) - longitude (currentAircrafts s ! nat (selectedAircraft s))"

definition delta_latitude :: "'f::minus globals \<Rightarrow> nat \<Rightarrow> 'f" where
  "delta_latitude s i =
     latitude (currentAircrafts s ! i) - latitude (currentAircrafts s ! nat (selectedAircraft s))"

definition eligible :: "'f globals \<Rightarrow> nat \<Rightarrow> bool" where
  "eligible s i =
     (i < nat (currentAircraftCount s) \<and> int i \<noteq> selectedAircraft s \<and>
      on_screen (currentAircrafts s ! i) \<noteq> 0)"

definition nearest_or_unchanged ::
  "'f globals \<Rightarrow> (nat \<Rightarrow> bool) \<Rightarrow> (nat \<Rightarrow> 'k::ord) \<Rightarrow> int \<Rightarrow> bool" where
  "nearest_or_unchanged s qualifies delta r =
     (if \<exists>i. eligible s i \<and> qualifies i
      then \<exists>k. r = int k \<and> int k \<noteq> selectedAircraft s \<and> eligible s k \<and> qualifies k \<and>
             (\<forall>i. eligible s i \<and> qualifies i \<longrightarrow> delta k \<le> delta i) \<and>
             (\<forall>i<k. eligible s i \<and> qualifies i \<longrightarrow> delta k < delta i)
      else r = selectedAircraft s)"

text \<open>
  Both selection loops keep a running minimum with a strict comparison. This is the
  shape they share: the pair is (index of the minimum so far, minimum so far).
\<close>

definition scan_step :: "(nat \<Rightarrow> bool) \<Rightarrow> (nat \<Rightarrow> 'k::ord) \<Rightarrow> nat \<Rightarrow> int \<times> 'k \<Rightarrow> int \<times> 'k" where
  "scan_step q key i acc = (if q i \<and> key i < snd acc then (int i, key i) else acc)"

section \<open>First selection: the confirm branch of \<open>Select_Aircraft_Thread\<close>\<close>

definition INT32_MAX :: int where
  "INT32_MAX = 2147483647"

text \<open>
  The squared distance \<open>dx * dx + dy * dy\<close> of a record's screen position from the
  point the loop measures from. It is computed in \<open>int32_t\<close>; the model computes it in
  \<open>int\<close>, which is the same value whenever it does not exceed \<open>INT32_MAX\<close>.
\<close>

definition center_distance :: "'f platform \<Rightarrow> 'f AircraftData_t \<Rightarrow> int" where
  "center_distance E aircraft =
     (let dx = screen_x aircraft - c_div (X_MAX E) 2;
          dy = screen_y aircraft - c_div (Y_MAX E + c_div (Y_MAX E - 70) 2) 2
      in dx * dx + dy * dy)"

text \<open>One pass of the loop body; the pair is (the globals, \<open>min_distance\<close>).\<close>

definition select_step :: "'f platform \<Rightarrow> nat \<Rightarrow> 'f globals \<times> int \<Rightarrow> 'f globals \<times> int" where
  "select_step E i acc =
     (let aircraft = currentAircrafts (fst acc) ! i
      in if on_screen aircraft \<noteq> 0
         then (let distance = center_distance E aircraft
               in if distance < snd acc
                  then ((fst acc)\<lparr>selectedAircraft := int i\<rparr>, distance)
                  else acc)
         else acc)"

text \<open>
  One round of the thread while \<open>selectedAircraft == -1\<close>, with \<open>press_status\<close> the value
  \<open>JOYSTICK_GetPress()\<close> returned.
\<close>

definition Select_Aircraft_confirm :: "'f platform \<Rightarrow> int \<Rightarrow> 'f globals \<Rightarrow> 'f globals" where
  "Select_Aircraft_confirm E press_status s =
     (if press_status \<noteq> 0
      then (let s1 = fst (fold (select_step E) [0..<nat (currentAircraftCount s)] (s, INT32_MAX))
            in s1\<lparr>sem_INFO_DISPLAY := Suc (sem_INFO_DISPLAY s1),
                   sem_MAIN_DISPLAY := Suc (sem_MAIN_DISPLAY s1)\<rparr>)
      else s)"

definition visible :: "'f globals \<Rightarrow> nat \<Rightarrow> bool" where
  "visible s i = (i < nat (currentAircraftCount s) \<and> on_screen (currentAircrafts s ! i) \<noteq> 0)"

section \<open>One round of \<open>Update_Current_Aircrafts_Thread\<close>\<close>

text \<open>
  After a burst-complete signal: the commit under both semaphores, then the
  projection of the new live set, then the redraw signal.
\<close>

definition Update_Current_Aircrafts_Thread ::
  "'f::{plus,minus,times,inverse,ord} platform \<Rightarrow> 'f globals \<Rightarrow> 'f globals" where
  "Update_Current_Aircrafts_Thread E s =
     (let s1 = commit s;
          s2 = recalculate_screen_positions E s1
      in s2\<lparr>sem_MAIN_DISPLAY := Suc (sem_MAIN_DISPLAY s2)\<rparr>)"

section \<open>Byte reassembly: \<open>UART4_Handler\<close>\<close>

text \<open>
  The handler's three \<open>static\<close> variables. \<open>G8RTOS_WriteFIFO\<close> and
  \<open>G8RTOS_SignalSemaphore\<close> belong to the scheduler, which is not in the sources, so the
  handler is modelled with the list of calls it makes, in order.
\<close>

record uart_static =
  byte_buffer :: "8 word list"
  byte_index :: "8 word"
  message_byte_count :: "8 word"

datatype rtos_call =
  WriteFIFO_DATA "32 word"
  | Signal_BURST_COMPLETE
  | Signal_DATA_READY

text \<open>The buffer has 4 slots and the index stays inside it, as it does from the initial 0.\<close>

definition uart_ok :: "uart_static \<Rightarrow> bool" where
  "uart_ok u = (length (byte_buffer u) = 4 \<and> byte_index u < 4)"

text \<open>
  \<open>byte_buffer[0] | byte_buffer[1] << 8 | byte_buffer[2] << 16 | byte_buffer[3] << 24\<close>,
  stored in an \<open>int32_t\<close>.
\<close>

definition assemble_word :: "8 word list \<Rightarrow> 32 word" where
  "assemble_word buf =
     ucast (buf ! 0) OR push_bit 8 (ucast (buf ! 1)) OR
     push_bit 16 (ucast (buf ! 2)) OR push_bit 24 (ucast (buf ! 3))"

text \<open>One pass of the \<open>while\<close> body, for the byte read from the UART.\<close>

definition receive_byte :: "8 word \<Rightarrow> uart_static \<Rightarrow> uart_static \<times> rtos_call list" where
  "receive_byte received_byte u =
     (let buf = (byte_buffer u)[unat (byte_index u) := received_byte];
          idx = byte_index u + 1;
          cnt = message_byte_count u + 1;
          word = assemble_word buf;
          calls1 = (if idx = 4
                    then (if word = 0xFFFFFFFF then [Signal_BURST_COMPLETE]
                          else [WriteFIFO_DATA word])
                    else []);
          cnt1 = (if idx = 4 \<and> word = 0xFFFFFFFF then 0 else cnt);
          idx1 = (if idx = 4 then 0 else idx);
          calls2 = (if cnt1 \<ge> of_nat MESSAGE_SIZE then [Signal_DATA_READY] else []);
          cnt2 = (if cnt1 \<ge> of_nat MESSAGE_SIZE then 0 else cnt1)
      in (u\<lparr>byte_buffer := buf, byte_index := idx1, message_byte_count := cnt2\<rparr>,
          calls1 @ calls2))"

text \<open>
  The \<open>while (UARTCharsAvail(...))\<close> loop over the bytes available to one or more
  invocations (the statics persist between invocations).
\<close>

fun UART4_Handler :: "8 word list \<Rightarrow> uart_static \<Rightarrow> uart_static \<times> rtos_call list" where
  "UART4_Handler [] u = (u, [])"
| "UART4_Handler (b # bs) u =
     (let r1 = receive_byte b u;
          r2 = UART4_Handler bs (fst r1)
      in (fst r2, snd r1 @ snd r2))"

text \<open>The calls other than the data-ready signal, which is counted apart from the words.\<close>

definition not_ready :: "rtos_call \<Rightarrow> bool" where
  "not_ready c = (c \<noteq> Signal_DATA_READY)"

section \<open>Record decoding: \<open>Process_New_Aircraft_Thread\<close>\<close>

text \<open>
  \<open>((int64_t)high_byte << 32) | low_byte\<close>: both \<open>int32_t\<close> operands are sign-extended
  to 64 bits.
\<close>

definition callsign_raw :: "32 word \<Rightarrow> 32 word \<Rightarrow> 64 word" where
  "callsign_raw low_byte high_byte = push_bit 32 (scast high_byte) OR scast low_byte"

text \<open>\<open>(char)((callsign_raw >> (i * 8)) & 0xFF)\<close>, the shift being arithmetic.\<close>

definition callsign_char :: "64 word \<Rightarrow> nat \<Rightarrow> 8 word" where
  "callsign_char raw i = ucast (signed_drop_bit (i * 8) raw AND 0xFF)"

text \<open>
  \<open>strncpy(dest, src, n)\<close>: the \<open>n\<close> bytes written to \<open>dest\<close> are the characters of
  \<open>src\<close> before its first NUL (at most \<open>n\<close>), then NULs.
\<close>

definition strncpy_c :: "8 word list \<Rightarrow> nat \<Rightarrow> 8 word list" where
  "strncpy_c src n =
     (let chars = takeWhile (\<lambda>c. c \<noteq> 0) (take n src)
      in chars @ replicate (n - length chars) 0)"

text \<open>The string literal \<open>"N/A    "\<close> with its terminator.\<close>

definition literal_NA_padded :: "8 word list" where
  "literal_NA_padded = [0x4E, 0x2F, 0x41, 0x20, 0x20, 0x20, 0x20, 0]"

text \<open>
  The local array \<open>callsign[8]\<close> after the loop and the check for a leading space. The
  loop writes elements 0 to 6; element 7 keeps whatever the stack held, \<open>stack_byte\<close>.
\<close>

definition local_callsign :: "32 word \<Rightarrow> 32 word \<Rightarrow> 8 word \<Rightarrow> 8 word list" where
  "local_callsign low_byte high_byte stack_byte =
     (let raw = callsign_raw low_byte high_byte;
          callsign0 = map (callsign_char raw) [0..<7] @ [stack_byte]
      in if callsign0 ! 0 = 0x20 then strncpy_c literal_NA_padded 8 else callsign0)"

text \<open>
  The local \<open>aircraftData\<close> once packed. The struct is not initialised, so the fields the
  thread does not assign (\<open>screen_x\<close>, \<open>screen_y\<close>, \<open>on_screen\<close>) keep what the stack
  held, \<open>stack_data\<close>. \<open>words\<close> are the seven values read from the FIFO, in order.
\<close>

definition decode_aircraft ::
  "'f::inverse platform \<Rightarrow> 'f AircraftData_t \<Rightarrow> 8 word \<Rightarrow> 32 word list \<Rightarrow> 'f AircraftData_t" where
  "decode_aircraft E stack_data stack_byte words =
     (let low_byte = words ! 0;
          high_byte = words ! 1;
          callsign_local = local_callsign low_byte high_byte stack_byte;
          longitude_int = words ! 2;
          latitude_int = words ! 3;
          altitude_int = words ! 4;
          velocity_int = words ! 5;
          heading_int = words ! 6
      in stack_data
           \<lparr>callsign := strncpy_c callsign_local 8,
            longitude := float_of_int E (sint longitude_int) / flit E 10000,
            latitude := float_of_int E (sint latitude_int) / flit E 10000,
            altitude := float_of_int E (sint altitude_int) / flit E 10000,
            velocity := float_of_int E (sint velocity_int) / flit E 10000,
            heading := float_of_int E (sint heading_int) / flit E 10000\<rparr>)"

text \<open>One round of the thread after a data-ready signal: decode, then append if there is room.\<close>

definition Process_New_Aircraft_Thread ::
  "'f::inverse platform \<Rightarrow> 'f AircraftData_t \<Rightarrow> 8 word \<Rightarrow> 32 word list \<Rightarrow> 'f globals \<Rightarrow> 'f globals" where
  "Process_New_Aircraft_Thread E stack_data stack_byte words s =
     (let aircraftData = decode_aircraft E stack_data stack_byte words
      in if stagingAircraftCount s < int MAX_AIRCRAFTS
         then s\<lparr>stagingAircrafts := (stagingAircrafts s)[nat (stagingAircraftCount s) := aircraftData],
                stagingAircraftCount := stagingAircraftCount s + 1\<rparr>
         else s)"

text \<open>
  The identifier bytes as the wire carries them: byte \<open>k\<close> of the eight is byte \<open>k\<close> of
  the first word for \<open>k < 4\<close> and byte \<open>k - 4\<close> of the second word otherwise, least
  significant byte first.
\<close>

definition wire_byte :: "32 word \<Rightarrow> 32 word \<Rightarrow> nat \<Rightarrow> 8 word" where
  "wire_byte word0 word1 k =
     (if k < 4 then ucast (drop_bit (8 * k) word0) else ucast (drop_bit (8 * (k - 4)) word1))"

definition ascii_identifier :: "32 word \<Rightarrow> 32 word \<Rightarrow> bool" where
  "ascii_identifier word0 word1 = list_all (\<lambda>k. wire_byte word0 word1 k < 0x80) [0..<7]"

definition no_NUL_identifier :: "32 word \<Rightarrow> 32 word \<Rightarrow> bool" where
  "no_NUL_identifier word0 word1 = list_all (\<lambda>k. wire_byte word0 word1 k \<noteq> 0) [0..<7]"

section \<open>Example data\<close>

text \<open>
  A zero-initialised slot and three decoded records (call signs \<open>UAL123\<close>, \<open>DAL456\<close>,
  \<open>SWA789\<close> as their bytes, blank-padded and NUL-terminated), with floats read as
  reals. \<open>UAL123\<close> is at the reference point, \<open>DAL456\<close> one degree north of it.
  In \<open>example_globals\<close> the live set is \<open>UAL123, DAL456\<close> with \<open>DAL456\<close> selected, and a
  burst of three records is staged.
\<close>

definition zero_aircraft :: "real AircraftData_t" where
  "zero_aircraft =
     \<lparr>callsign = [0, 0, 0, 0, 0, 0, 0, 0], longitude = 0, latitude = 0, altitude = 0,
      velocity = 0, heading = 0, screen_x = 0, screen_y = 0, on_screen = 0\<rparr>"

definition aircraft_UAL123 :: "real AircraftData_t" where
  "aircraft_UAL123 =
     \<lparr>callsign = [0x55, 0x41, 0x4C, 0x31, 0x32, 0x33, 0x20, 0],
      longitude = - 823533 / 10000, latitude = 296465 / 10000, altitude = 10000,
      velocity = 230, heading = 90, screen_x = 0, screen_y = 0, on_screen = 0\<rparr>"

definition aircraft_DAL456 :: "real AircraftData_t" where
  "aircraft_DAL456 =
     \<lparr>callsign = [0x44, 0x41, 0x4C, 0x34, 0x35, 0x36, 0x20, 0],
      longitude = - 823533 / 10000, latitude = 306465 / 10000, altitude = 11000,
      velocity = 240, heading = 180, screen_x = 0, screen_y = 0, on_screen = 0\<rparr>"

definition aircraft_SWA789 :: "real AircraftData_t" where
  "aircraft_SWA789 =
     \<lparr>callsign = [0x53, 0x57, 0x41, 0x37, 0x38, 0x39, 0x20, 0],
      longitude = - 822533 / 10000, latitude = 296465 / 10000, altitude = 9000,
      velocity = 210, heading = 270, screen_x = 0, screen_y = 0, on_screen = 0\<rparr>"

definition example_globals :: "real globals" where
  "example_globals =
     \<lparr>display_range_km = 50,
      stagingAircrafts = aircraft_DAL456 # aircraft_UAL123 # aircraft_SWA789 # replicate 197 zero_aircraft,
      stagingAircraftCount = 3,
      currentAircrafts = aircraft_UAL123 # aircraft_DAL456 # replicate 198 zero_aircraft,
      currentAircraftCount = 2,
      selectedAircraft = 1,
      sem_INFO_DISPLAY = 0,
      sem_MAIN_DISPLAY = 0\<rparr>"

text \<open>
  A platform for the examples: floats read as reals with exact arithmetic, the
  mathematical functions for the float library, truncation towards zero for the cast
  to an integer, and a 240 by 280 display.
\<close>

definition atan2_ideal :: "real \<Rightarrow> real \<Rightarrow> real" where
  "atan2_ideal y x =
     (if 0 < x then arctan (y / x)
      else if x < 0 \<and> 0 \<le> y then arctan (y / x) + pi
      else if x < 0 then arctan (y / x) - pi
      else if 0 < y then pi / 2
      else if y < 0 then - (pi / 2)
      else 0)"

definition truncate_ideal :: "real \<Rightarrow> int" where
  "truncate_ideal x = (if 0 \<le> x then \<lfloor>x\<rfloor> else \<lceil>x\<rceil>)"

definition ideal_platform :: "real platform" where
  "ideal_platform =
     \<lparr>flit = of_rat, float_of_int = of_int, int16_of_float = truncate_ideal,
      sqrtf = sqrt, cosf = cos, sinf = sin, atan2f = atan2_ideal, fabsf = abs,
      FLT_MAX = 340282346638528859811704183484516925440,
      X_MAX = 240, Y_MAX = 280\<rparr>"

text \<open>
  A display state: four live records, the first three visible with their screen
  positions, \<open>UAL123\<close> (index 0) selected; \<open>JBU321\<close> lies 0.2 degrees east of it and
  \<open>SWA789\<close> 0.1 degrees east.
\<close>

definition aircraft_JBU321 :: "real AircraftData_t" where
  "aircraft_JBU321 =
     \<lparr>callsign = [0x4A, 0x42, 0x55, 0x33, 0x32, 0x31, 0x20, 0],
      longitude = - 821533 / 10000, latitude = 296465 / 10000, altitude = 8000,
      velocity = 220, heading = 45, screen_x = 0, screen_y = 0, on_screen = 0\<rparr>"

definition example_display :: "real globals" where
  "example_display =
     \<lparr>display_range_km = 50,
      stagingAircrafts = replicate 200 zero_aircraft,
      stagingAircraftCount = 0,
      currentAircrafts =
        aircraft_UAL123\<lparr>on_screen := 1, screen_x := 120, screen_y := 175\<rparr> #
        aircraft_JBU321\<lparr>on_screen := 1, screen_x := 158, screen_y := 175\<rparr> #
        aircraft_SWA789\<lparr>on_screen := 1, screen_x := 139, screen_y := 175\<rparr> #
        aircraft_DAL456 # replicate 196 zero_aircraft,
      currentAircraftCount = 4,
      selectedAircraft = 0,
      sem_INFO_DISPLAY = 0,
      sem_MAIN_DISPLAY = 0\<rparr>"

text \<open>
  Two bursts against the display state with \<open>SWA789\<close> (index 2) selected. In
  \<open>example_reordered\<close> the burst carries the same aircraft in another order, \<open>SWA789\<close>
  first. In \<open>example_departed\<close> the burst no longer carries \<open>SWA789\<close>.
\<close>

definition example_reordered :: "real globals" where
  "example_reordered =
     example_display
       \<lparr>selectedAircraft := 2,
        stagingAircrafts :=
          aircraft_SWA789 # aircraft_UAL123 # aircraft_JBU321 # aircraft_DAL456 #
          replicate 196 zero_aircraft,
        stagingAircraftCount := 4\<rparr>"

definition example_departed :: "real globals" where
  "example_departed =
     example_display
       \<lparr>selectedAircraft := 2,
        stagingAircrafts :=
          aircraft_UAL123 # aircraft_DAL456 # aircraft_JBU321 # replicate 197 zero_aircraft,
        stagingAircraftCount := 3\<rparr>"

text \<open>
  For the projection: \<open>AAL100\<close> lies 0.1 degrees due north of the reference point. In
  \<open>example_projection\<close> the live set is \<open>UAL123\<close> (at the reference point), \<open>DAL456\<close>
  (one degree north, selected), \<open>AAL100\<close> and \<open>SWA789\<close> (0.1 degrees due east), at a
  display range of 50 km. \<open>cos_center\<close> is the cosine of the reference latitude as the
  example platform computes it.
\<close>

definition aircraft_AAL100 :: "real AircraftData_t" where
  "aircraft_AAL100 =
     \<lparr>callsign = [0x41, 0x41, 0x4C, 0x31, 0x30, 0x30, 0x20, 0],
      longitude = - 823533 / 10000, latitude = 297465 / 10000, altitude = 7000,
      velocity = 250, heading = 0, screen_x = 0, screen_y = 0, on_screen = 0\<rparr>"

definition example_projection :: "real globals" where
  "example_projection =
     \<lparr>display_range_km = 50,
      stagingAircrafts = replicate 200 zero_aircraft,
      stagingAircraftCount = 0,
      currentAircrafts =
        aircraft_UAL123 # aircraft_DAL456 # aircraft_AAL100 # aircraft_SWA789 #
        replicate 196 zero_aircraft,
      currentAircraftCount = 4,
      selectedAircraft = 1,
      sem_INFO_DISPLAY = 0,
      sem_MAIN_DISPLAY = 0\<rparr>"

definition cos_center :: real where
  "cos_center = cos (CENTER_LATITUDE ideal_platform *
                     (flit ideal_platform M_PI / flit ideal_platform 180))"

text \<open>
  For the directional selection: \<open>FDX200\<close> lies 0.1 degrees west and 0.1 degrees south
  of the reference point. In \<open>example_compass\<close> \<open>UAL123\<close> (index 0) is selected; east of
  it lie \<open>JBU321\<close> (index 1, 0.2 degrees) and \<open>SWA789\<close> (index 2, 0.1 degrees), north of
  it \<open>DAL456\<close> (index 3, not visible) and \<open>AAL100\<close> (index 4), west and south of it
  \<open>FDX200\<close> (index 5).
\<close>

definition aircraft_FDX200 :: "real AircraftData_t" where
  "aircraft_FDX200 =
     \<lparr>callsign = [0x46, 0x44, 0x58, 0x32, 0x30, 0x30, 0x20, 0],
      longitude = - 824533 / 10000, latitude = 295465 / 10000, altitude = 6000,
      velocity = 200, heading = 135, screen_x = 0, screen_y = 0, on_screen = 0\<rparr>"

definition example_compass :: "real globals" where
  "example_compass =
     \<lparr>display_range_km = 50,
      stagingAircrafts = replicate 200 zero_aircraft,
      stagingAircraftCount = 0,
      currentAircrafts =
        aircraft_UAL123\<lparr>on_screen := 1, screen_x := 120, screen_y := 175\<rparr> #
        aircraft_JBU321\<lparr>on_screen := 1, screen_x := 158, screen_y := 175\<rparr> #
        aircraft_SWA789\<lparr>on_screen := 1, screen_x := 139, screen_y := 175\<rparr> #
        aircraft_DAL456 #
        aircraft_AAL100\<lparr>on_screen := 1, screen_x := 120, screen_y := 153\<rparr> #
        aircraft_FDX200\<lparr>on_screen := 1, screen_x := 101, screen_y := 197\<rparr> #
        replicate 194 zero_aircraft,
      currentAircraftCount = 6,
      selectedAircraft = 0,
      sem_INFO_DISPLAY = 0,
      sem_MAIN_DISPLAY = 0\<rparr>"

text \<open>
  For the first selection: \<open>NKS500\<close> lies 0.09 degrees due south of the reference
  point, which the projection puts 20 pixels below the radar centre. In
  \<open>example_confirm\<close> the live set is \<open>UAL123\<close> on the radar centre (120, 175) and
  \<open>NKS500\<close> at (120, 195), both visible, and nothing is selected.
\<close>

definition aircraft_NKS500 :: "real AircraftData_t" where
  "aircraft_NKS500 =
     \<lparr>callsign = [0x4E, 0x4B, 0x53, 0x35, 0x30, 0x30, 0x20, 0],
      longitude = - 823533 / 10000, latitude = 295565 / 10000, altitude = 5000,
      velocity = 190, heading = 10, screen_x = 0, screen_y = 0, on_screen = 0\<rparr>"

definition example_confirm :: "real globals" where
  "example_confirm =
     \<lparr>display_range_km = 50,
      stagingAircrafts = replicate 200 zero_aircraft,
      stagingAircraftCount = 0,
      currentAircrafts =
        aircraft_UAL123\<lparr>on_screen := 1, screen_x := 120, screen_y := 175\<rparr> #
        aircraft_NKS500\<lparr>on_screen := 1, screen_x := 120, screen_y := 195\<rparr> #
        replicate 198 zero_aircraft,
      currentAircraftCount = 2,
      selectedAircraft = - 1,
      sem_INFO_DISPLAY = 0,
      sem_MAIN_DISPLAY = 0\<rparr>"

text \<open>The handler's statics as the program starts.\<close>

definition uart_initial :: uart_static where
  "uart_initial = \<lparr>byte_buffer = [0, 0, 0, 0], byte_index = 0, message_byte_count = 0\<rparr>"

section \<open>Properties of the commit\<close>

lemma replace_step_staging [simp]:
  "stagingAircrafts (replace_step p i s) = stagingAircrafts s"
  "stagingAircraftCount (replace_step p i s) = stagingAircraftCount s"
  by (simp_all add: replace_step_def Let_def)

lemma replace_loop_staging:
  "stagingAircrafts (fold (replace_step p) is s) = stagingAircrafts s \<and>
   stagingAircraftCount (fold (replace_step p) is s) = stagingAircraftCount s"
  by (induction "is" arbitrary: s) simp_all

lemma replace_step_current [simp]:
  "currentAircrafts (replace_step p i s) = (currentAircrafts s)[i := stagingAircrafts s ! i]"
  by (simp add: replace_step_def Let_def)

lemma replace_loop_current:
  "n \<le> length (stagingAircrafts s) \<Longrightarrow> n \<le> length (currentAircrafts s) \<Longrightarrow>
   currentAircrafts (fold (replace_step p) [0..<n] s) =
     take n (stagingAircrafts s) @ drop n (currentAircrafts s)"
proof (induction n)
  case 0
  then show ?case by simp
next
  case (Suc n)
  let ?t = "fold (replace_step p) [0..<n] s"
  have cur: "currentAircrafts ?t = take n (stagingAircrafts s) @ drop n (currentAircrafts s)"
    using Suc by simp
  have stg: "stagingAircrafts ?t = stagingAircrafts s"
    by (simp add: replace_loop_staging)
  have "currentAircrafts (fold (replace_step p) [0..<Suc n] s) =
        (take n (stagingAircrafts s) @ drop n (currentAircrafts s))[n := stagingAircrafts s ! n]"
    by (simp add: cur stg)
  also have "\<dots> = take n (stagingAircrafts s) @ (drop n (currentAircrafts s))[0 := stagingAircrafts s ! n]"
    using Suc.prems by (simp add: list_update_append)
  also have "(drop n (currentAircrafts s))[0 := stagingAircrafts s ! n] =
             stagingAircrafts s ! n # drop (Suc n) (currentAircrafts s)"
    using Suc.prems by (simp add: Cons_nth_drop_Suc [symmetric])
  also have "take n (stagingAircrafts s) @ stagingAircrafts s ! n # drop (Suc n) (currentAircrafts s) =
             take (Suc n) (stagingAircrafts s) @ drop (Suc n) (currentAircrafts s)"
    using Suc.prems by (simp add: take_Suc_conv_app_nth)
  finally show ?case .
qed

lemma capture_loop_points_at_selected:
  "points_at_selected p sel \<Longrightarrow>
   points_at_selected
     (fold (\<lambda>i p. if sel = int i then Current_callsign i else p) is p) sel"
  by (induction "is" arbitrary: p) (simp_all add: points_at_selected_def)

lemma capture_points_at_selected:
  "points_at_selected (capture_SelectedCallSign s) (selectedAircraft s)"
  unfolding capture_SelectedCallSign_def
  using capture_loop_points_at_selected [of Literal_NA "selectedAircraft s"]
  by (simp add: points_at_selected_def)

lemma replace_step_selectedAircraft:
  "points_at_selected p (selectedAircraft s) \<Longrightarrow>
   selectedAircraft (replace_step p i s) = selectedAircraft s"
  by (auto simp: replace_step_def Let_def points_at_selected_def)

lemma replace_loop_selectedAircraft:
  "points_at_selected p (selectedAircraft s) \<Longrightarrow>
   selectedAircraft (fold (replace_step p) is s) = selectedAircraft s"
  by (induction "is" arbitrary: s) (simp_all add: replace_step_selectedAircraft)

lemma commit_selectedAircraft:
  "selectedAircraft (commit s) = selectedAircraft s"
  using replace_loop_selectedAircraft [OF capture_points_at_selected]
  by (simp add: commit_def Let_def)

lemma commit_currentAircrafts:
  assumes "arrays_ok s"
  shows "currentAircrafts (commit s) =
         take (nat (stagingAircraftCount s)) (stagingAircrafts s) @
         drop (nat (stagingAircraftCount s)) (currentAircrafts s)"
proof -
  have "nat (stagingAircraftCount s) \<le> length (stagingAircrafts s)"
       "nat (stagingAircraftCount s) \<le> length (currentAircrafts s)"
    using assms by (auto simp: arrays_ok_def)
  then show ?thesis
    using replace_loop_current by (simp add: commit_def Let_def)
qed

lemma example_globals_ok: "arrays_ok example_globals"
  by (simp add: arrays_ok_def example_globals_def MAX_AIRCRAFTS_def)

text \<open>
  C3. After the commit the live count is the staging count seen before it, the first
  live-count records of the live array are the staged records in their order, and the
  staging count is 0.
\<close>

theorem commit_replaces_live:
  assumes "arrays_ok s"
  shows "currentAircraftCount (commit s) = stagingAircraftCount s \<and>
         take (nat (currentAircraftCount (commit s))) (currentAircrafts (commit s)) =
           take (nat (stagingAircraftCount s)) (stagingAircrafts s) \<and>
         stagingAircraftCount (commit s) = 0"
proof -
  let ?n = "nat (stagingAircraftCount s)"
  have n: "?n \<le> length (stagingAircrafts s)" "?n \<le> length (currentAircrafts s)"
    using assms by (auto simp: arrays_ok_def)
  have "currentAircrafts (commit s) = take ?n (stagingAircrafts s) @ drop ?n (currentAircrafts s)"
    using replace_loop_current [OF n] by (simp add: commit_def Let_def)
  moreover have "currentAircraftCount (commit s) = stagingAircraftCount s"
    by (simp add: commit_def Let_def replace_loop_staging)
  moreover have "stagingAircraftCount (commit s) = 0"
    by (simp add: commit_def Let_def)
  ultimately show ?thesis using n by simp
qed

theorem commit_replaces_live_witness:
  "arrays_ok example_globals \<and>
   currentAircraftCount (commit example_globals) = 3 \<and>
   take 3 (currentAircrafts (commit example_globals)) =
     [aircraft_DAL456, aircraft_UAL123, aircraft_SWA789] \<and>
   stagingAircraftCount (commit example_globals) = 0"
proof -
  have c: "stagingAircraftCount example_globals = 3"
    by (simp add: example_globals_def)
  have t: "take 3 (stagingAircrafts example_globals) =
           [aircraft_DAL456, aircraft_UAL123, aircraft_SWA789]"
    by (simp add: example_globals_def)
  show ?thesis
    using commit_replaces_live [OF example_globals_ok] example_globals_ok
    by (clarsimp simp: c t)
qed

section \<open>Properties of the projection\<close>

lemma recalculate_step_eq:
  "recalculate_step E i s =
     s\<lparr>currentAircrafts :=
         (currentAircrafts s)[i := project_aircraft E (display_range_km s) (currentAircrafts s ! i)],
       selectedAircraft :=
         (if int i = selectedAircraft s \<and> beyond_display_range E (display_range_km s) (currentAircrafts s ! i)
          then - 1 else selectedAircraft s),
       sem_INFO_DISPLAY :=
         (if int i = selectedAircraft s \<and> beyond_display_range E (display_range_km s) (currentAircrafts s ! i)
          then Suc (sem_INFO_DISPLAY s) else sem_INFO_DISPLAY s)\<rparr>"
  by (simp add: recalculate_step_def project_aircraft_def Let_def)

lemma project_prefix_Suc:
  assumes "n < length xs"
  shows "(map f (take n xs) @ drop n xs)[n := f ((map f (take n xs) @ drop n xs) ! n)] =
         map f (take (Suc n) xs) @ drop (Suc n) xs"
proof -
  have a: "(map f (take n xs) @ drop n xs) ! n = xs ! n"
    using assms by (simp add: nth_append)
  have "(map f (take n xs) @ drop n xs)[n := f (xs ! n)] =
        map f (take n xs) @ (drop n xs)[0 := f (xs ! n)]"
    using assms by (simp add: list_update_append)
  also have "(drop n xs)[0 := f (xs ! n)] = f (xs ! n) # drop (Suc n) xs"
    using assms by (simp add: Cons_nth_drop_Suc [symmetric])
  finally show ?thesis
    using assms by (simp add: a take_Suc_conv_app_nth)
qed

lemma recalculate_loop:
  "n \<le> length (currentAircrafts s) \<Longrightarrow>
   fold (recalculate_step E) [0..<n] s = after_recalculate E n s"
proof (induction n)
  case 0
  then show ?case by (simp add: after_recalculate_def selection_lost_def)
next
  case (Suc n)
  then have n: "n < length (currentAircrafts s)" by simp
  have IH: "fold (recalculate_step E) [0..<n] s = after_recalculate E n s"
    using Suc by simp
  have nth: "(map (project_aircraft E (display_range_km s)) (take n (currentAircrafts s)) @
              drop n (currentAircrafts s)) ! n = currentAircrafts s ! n"
    using n by (simp add: nth_append)
  have lost_n: "selection_lost E s n \<Longrightarrow> int n \<noteq> selectedAircraft s"
    by (simp add: selection_lost_def)
  have lost_Suc: "selection_lost E s (Suc n) =
     (selection_lost E s n \<or>
      (int n = selectedAircraft s \<and> beyond_display_range E (display_range_km s) (currentAircrafts s ! n)))"
  proof (cases "selectedAircraft s = int n")
    case True
    then show ?thesis by (simp add: selection_lost_def)
  next
    case False
    then show ?thesis by (auto simp: selection_lost_def)
  qed
  have "fold (recalculate_step E) [0..<Suc n] s = recalculate_step E n (after_recalculate E n s)"
    by (simp add: IH)
  also have "\<dots> = after_recalculate E (Suc n) s"
    unfolding recalculate_step_eq
    using project_prefix_Suc [OF n, of "project_aircraft E (display_range_km s)"] lost_n
    by (auto simp: after_recalculate_def nth lost_Suc)
  finally show ?case .
qed


lemma beyond_display_range_fields:
  "beyond_display_range E r (a\<lparr>on_screen := v\<rparr>) = beyond_display_range E r a"
  "beyond_display_range E r (a\<lparr>screen_x := x\<rparr>) = beyond_display_range E r a"
  "beyond_display_range E r (a\<lparr>screen_y := y\<rparr>) = beyond_display_range E r a"
  by (simp_all add: beyond_display_range_def distance_from_center_def
        distance_latitude_km_def distance_longitude_km_def)

lemma pixel_offset_fields:
  "pixel_offset_x E r (a\<lparr>on_screen := v, screen_x := x, screen_y := y\<rparr>) = pixel_offset_x E r a"
  "pixel_offset_y E r (a\<lparr>on_screen := v, screen_x := x, screen_y := y\<rparr>) = pixel_offset_y E r a"
  by (simp_all add: pixel_offset_x_def pixel_offset_y_def pixel_distance_def angle_def
        distance_from_center_def distance_latitude_km_def distance_longitude_km_def)

lemma beyond_project_aircraft:
  "beyond_display_range E r (project_aircraft E r a) = beyond_display_range E r a"
  by (simp add: project_aircraft_def map_to_screen_def Let_def beyond_display_range_fields)

lemma project_aircraft_idem:
  "project_aircraft E r (project_aircraft E r a) = project_aircraft E r a"
proof (cases "beyond_display_range E r a")
  case True
  then show ?thesis
    by (simp add: project_aircraft_def beyond_display_range_fields)
next
  case False
  then have "\<not> beyond_display_range E r (map_to_screen E r a)"
    using beyond_project_aircraft [of E r a] by (simp add: project_aircraft_def)
  then show ?thesis using False
    by (simp add: project_aircraft_def map_to_screen_def Let_def pixel_offset_fields)
qed

lemma after_recalculate_idem:
  assumes "n \<le> length (currentAircrafts s)"
  shows "after_recalculate E n (after_recalculate E n s) = after_recalculate E n s"
proof -
  let ?t = "after_recalculate E n s"
  let ?p = "project_aircraft E (display_range_km s)"
  have rng: "display_range_km ?t = display_range_km s"
    by (simp add: after_recalculate_def)
  have cur: "currentAircrafts ?t = map ?p (take n (currentAircrafts s)) @ drop n (currentAircrafts s)"
    by (simp add: after_recalculate_def)
  have not_lost: "\<not> selection_lost E ?t n"
  proof (cases "selection_lost E s n")
    case True
    then show ?thesis by (simp add: selection_lost_def after_recalculate_def)
  next
    case False
    have sel: "selectedAircraft ?t = selectedAircraft s"
      using False by (simp add: after_recalculate_def)
    show ?thesis
    proof
      assume lost: "selection_lost E ?t n"
      then have b: "0 \<le> selectedAircraft s" "selectedAircraft s < int n"
        by (simp_all add: selection_lost_def sel)
      then have k: "nat (selectedAircraft s) < n" by simp
      have "currentAircrafts ?t ! nat (selectedAircraft s) =
            ?p (currentAircrafts s ! nat (selectedAircraft s))"
        using k assms by (simp add: cur nth_append)
      then have "beyond_display_range E (display_range_km s)
                   (currentAircrafts s ! nat (selectedAircraft s))"
        using lost by (simp add: selection_lost_def sel rng beyond_project_aircraft)
      then show False using False b by (simp add: selection_lost_def)
    qed
  qed
  have "map ?p (take n (currentAircrafts ?t)) @ drop n (currentAircrafts ?t) = currentAircrafts ?t"
    using assms by (simp add: cur project_aircraft_idem)
  then show ?thesis
    using not_lost by (simp add: after_recalculate_def [of E n ?t] rng)
qed

lemma recalculate_screen_positions_eq:
  assumes "arrays_ok s"
  shows "recalculate_screen_positions E s = after_recalculate E (nat (currentAircraftCount s)) s"
proof -
  have "nat (currentAircraftCount s) \<le> length (currentAircrafts s)"
    using assms by (auto simp: arrays_ok_def)
  then show ?thesis
    by (simp add: recalculate_screen_positions_def recalculate_loop)
qed

lemma after_recalculate_arrays_ok:
  "arrays_ok s \<Longrightarrow> arrays_ok (after_recalculate E n s)"
  by (auto simp: arrays_ok_def after_recalculate_def)

lemma after_recalculate_count [simp]:
  "currentAircraftCount (after_recalculate E n s) = currentAircraftCount s"
  by (simp add: after_recalculate_def)

lemma ideal_center [simp]:
  "CENTER_LATITUDE ideal_platform = 296465 / 10000"
  "CENTER_LONGITUDE ideal_platform = - 823533 / 10000"
  by (simp_all add: CENTER_LATITUDE_def CENTER_LONGITUDE_def ideal_platform_def of_rat_divide of_rat_minus)

lemma UAL123_at_center:
  "distance_latitude_km ideal_platform aircraft_UAL123 = 0"
  "distance_longitude_km ideal_platform aircraft_UAL123 = 0"
  by (simp_all add: distance_latitude_km_def distance_longitude_km_def aircraft_UAL123_def)

lemma UAL123_distance: "distance_from_center ideal_platform aircraft_UAL123 = 0"
  by (simp add: distance_from_center_def UAL123_at_center) (simp add: ideal_platform_def)

lemma DAL456_from_center:
  "distance_latitude_km ideal_platform aircraft_DAL456 = 11132 / 100"
  "distance_longitude_km ideal_platform aircraft_DAL456 = 0"
  by (simp_all add: distance_latitude_km_def distance_longitude_km_def aircraft_DAL456_def)
     (simp add: ideal_platform_def of_rat_divide)

lemma DAL456_distance: "distance_from_center ideal_platform aircraft_DAL456 = 11132 / 100"
proof -
  have "distance_from_center ideal_platform aircraft_DAL456 = sqrt ((11132 / 100) * (11132 / 100))"
    by (simp add: distance_from_center_def DAL456_from_center) (simp add: ideal_platform_def)
  also have "\<dots> = 11132 / 100"
    by (simp only: real_sqrt_abs2)
  finally show ?thesis .
qed

lemma example_range: "float_of_int ideal_platform (display_range_km example_globals) = 50"
  by (simp add: ideal_platform_def example_globals_def)

text \<open>
  C7. A second call of \<open>recalculate_screen_positions\<close> right after the first, with the
  live array and the display range untouched in between, changes nothing: every
  screen coordinate and visibility flag (and the selection) is what the first call
  left. This holds for any deterministic float library.
\<close>

theorem recalculate_idempotent:
  assumes "arrays_ok s"
  shows "recalculate_screen_positions E (recalculate_screen_positions E s) =
         recalculate_screen_positions E s"
proof -
  let ?n = "nat (currentAircraftCount s)"
  have n: "?n \<le> length (currentAircrafts s)"
    using assms by (auto simp: arrays_ok_def)
  have "recalculate_screen_positions E (recalculate_screen_positions E s) =
        after_recalculate E ?n (after_recalculate E ?n s)"
    using assms
    by (simp add: recalculate_screen_positions_eq after_recalculate_arrays_ok)
  then show ?thesis
    using assms by (simp add: after_recalculate_idem [OF n] recalculate_screen_positions_eq)
qed

theorem recalculate_idempotent_witness:
  "arrays_ok example_globals \<and>
   recalculate_screen_positions ideal_platform
     (recalculate_screen_positions ideal_platform example_globals) =
   recalculate_screen_positions ideal_platform example_globals"
  using recalculate_idempotent [OF example_globals_ok, of ideal_platform] example_globals_ok
  by simp

lemma recalculate_record_effect:
  assumes "arrays_ok s" and "i < nat (currentAircraftCount s)"
  shows "(let aircraft = currentAircrafts s ! i;
              s' = recalculate_screen_positions E s;
              aircraft' = currentAircrafts s' ! i;
              distance = distance_from_center E aircraft;
              scale = flit E 100 / float_of_int E (display_range_km s);
              dx = int16_of_float E (distance * scale * cosf E (angle E aircraft));
              dy = int16_of_float E (distance * scale * sinf E (angle E aircraft))
          in if distance > float_of_int E (display_range_km s)
             then on_screen aircraft' = 0 \<and>
                  (selectedAircraft s = int i \<longrightarrow>
                     selectedAircraft s' = - 1 \<and> sem_INFO_DISPLAY s' = Suc (sem_INFO_DISPLAY s))
             else on_screen aircraft' = 1 \<and>
                  screen_x aircraft' = int16 \<bar>int16 (radar_center_x E + dx)\<bar> \<and>
                  screen_y aircraft' = int16 \<bar>int16 (radar_center_y - dy)\<bar> \<and>
                  (0 \<le> radar_center_x E + dx \<and> radar_center_x E + dx < 32768 \<longrightarrow>
                     screen_x aircraft' = radar_center_x E + dx) \<and>
                  (0 \<le> radar_center_y - dy \<and> radar_center_y - dy < 32768 \<longrightarrow>
                     screen_y aircraft' = radar_center_y - dy))"
proof -
  let ?n = "nat (currentAircraftCount s)"
  let ?a = "currentAircrafts s ! i"
  let ?s' = "recalculate_screen_positions E s"
  have n: "?n \<le> length (currentAircrafts s)"
    using assms by (auto simp: arrays_ok_def)
  have s': "?s' = after_recalculate E ?n s"
    using assms by (simp add: recalculate_screen_positions_eq)
  have a': "currentAircrafts ?s' ! i = project_aircraft E (display_range_km s) ?a"
    using assms(2) n by (simp add: s' after_recalculate_def nth_append)
  have wrap: "0 \<le> x \<Longrightarrow> x < 32768 \<Longrightarrow> int16 \<bar>int16 x\<bar> = x" for x
    by (simp add: int16_def)
  show ?thesis
  proof (cases "beyond_display_range E (display_range_km s) ?a")
    case True
    have lost: "selectedAircraft s = int i \<Longrightarrow> selection_lost E s ?n"
      using True assms(2) by (auto simp: selection_lost_def)
    have vis: "on_screen (currentAircrafts ?s' ! i) = 0"
      using True by (simp add: a' project_aircraft_def)
    have sel: "selectedAircraft s = int i \<Longrightarrow>
               selectedAircraft ?s' = - 1 \<and> sem_INFO_DISPLAY ?s' = Suc (sem_INFO_DISPLAY s)"
      using lost by (simp add: s' after_recalculate_def)
    show ?thesis
      using True vis sel by (simp add: Let_def beyond_display_range_def)
  next
    case False
    then show ?thesis
      by (simp add: Let_def a' project_aircraft_def beyond_display_range_def map_to_screen_def
            pixel_offset_x_def pixel_offset_y_def pixel_distance_def wrap)
  qed
qed

lemma ideal_platform_fields:
  "flit ideal_platform = of_rat"
  "float_of_int ideal_platform = of_int"
  "int16_of_float ideal_platform = truncate_ideal"
  "sqrtf ideal_platform = sqrt"
  "cosf ideal_platform = cos"
  "sinf ideal_platform = sin"
  "atan2f ideal_platform = atan2_ideal"
  "fabsf ideal_platform = abs"
  "FLT_MAX ideal_platform = 340282346638528859811704183484516925440"
  "X_MAX ideal_platform = 240"
  "Y_MAX ideal_platform = 280"
  by (simp_all add: ideal_platform_def)

lemma ideal_distance_on_parallel:
  "distance_latitude_km ideal_platform a = 0 \<Longrightarrow>
   distance_from_center ideal_platform a = \<bar>distance_longitude_km ideal_platform a\<bar>"
  by (simp add: distance_from_center_def ideal_platform_fields)

lemma ideal_distance_on_meridian:
  "distance_longitude_km ideal_platform a = 0 \<Longrightarrow>
   distance_from_center ideal_platform a = \<bar>distance_latitude_km ideal_platform a\<bar>"
  by (simp add: distance_from_center_def ideal_platform_fields)

lemma center_radians:
  "CENTER_LATITUDE ideal_platform * (flit ideal_platform M_PI / flit ideal_platform 180) =
   296465 / 10000 * (314159265358979323846 / 100000000000000000000 / 180)"
  by (simp add: ideal_platform_fields M_PI_def of_rat_divide)

lemma cos_center_bounds: "8556 / 10000 \<le> cos_center \<and> cos_center \<le> 87 / 100"
proof -
  define c :: real where "c = 296465 / 10000 * (314159265358979323846 / 100000000000000000000 / 180)"
  have c_lo: "5174 / 10000 \<le> c" and c_hi: "c \<le> 5175 / 10000"
    by (simp_all add: c_def)
  have c0: "0 \<le> c" using c_lo by simp
  have "c \<le> 1" using c_hi by simp
  also have "1 \<le> pi / 2" using pi_ge_two by simp
  finally have c_pi2: "c \<le> pi / 2" .
  have cos0: "0 \<le> cos c"
    using c0 c_pi2 by (intro cos_ge_zero) simp_all
  have sin0: "0 \<le> sin c"
    using c0 c_pi2 pi_ge_two by (intro sin_ge_zero) simp_all
  have sin_hi: "sin c \<le> 5175 / 10000"
    using sin_x_le_x [OF c0] c_hi by simp
  have "\<bar>sin c - (\<Sum>m<3. sin_coeff m * c ^ m)\<bar> \<le> inverse (fact 3) * \<bar>c\<bar> ^ 3"
    by (rule Maclaurin_sin_bound)
  moreover have "(\<Sum>m<3. sin_coeff m * c ^ m) = c"
    by (simp add: sin_coeff_def numeral_3_eq_3)
  moreover have "inverse (fact 3) * \<bar>c\<bar> ^ 3 \<le> 232 / 10000"
  proof -
    have p: "\<bar>c\<bar> ^ 3 \<le> (5175 / 10000) ^ 3"
      using c0 c_hi by (intro power_mono; simp)
    have "inverse (fact 3) * \<bar>c\<bar> ^ 3 \<le> inverse (fact 3) * (5175 / 10000) ^ 3"
      using p by (intro mult_left_mono) simp_all
    also have "\<dots> \<le> 232 / 10000"
      by (simp add: fact_numeral power3_eq_cube)
    finally show ?thesis .
  qed
  ultimately have sin_lo: "4942 / 10000 \<le> sin c"
    using c_lo by (simp add: abs_le_iff)
  have sq: "(cos c)\<^sup>2 = 1 - (sin c)\<^sup>2"
    using sin_cos_squared_add [of c] by linarith
  have s_hi2: "(sin c)\<^sup>2 \<le> (5175 / 10000)\<^sup>2"
    using sin0 sin_hi by (intro power_mono; simp)
  have n1: "(8556 / 10000)\<^sup>2 \<le> 1 - (5175 / 10000 :: real)\<^sup>2"
    by (simp add: power2_eq_square)
  have "(8556 / 10000)\<^sup>2 \<le> (cos c)\<^sup>2"
    using sq s_hi2 n1 by linarith
  then have lo: "8556 / 10000 \<le> cos c"
    using cos0 by (rule power2_le_imp_le)
  have s_lo2: "(4942 / 10000)\<^sup>2 \<le> (sin c)\<^sup>2"
    using sin_lo by (intro power_mono; simp)
  have n2: "1 - (4942 / 10000 :: real)\<^sup>2 \<le> (87 / 100)\<^sup>2"
    by (simp add: power2_eq_square)
  have "(cos c)\<^sup>2 \<le> (87 / 100)\<^sup>2"
    using sq s_lo2 n2 by linarith
  then have hi: "cos c \<le> 87 / 100"
    by (rule power2_le_imp_le) simp
  show ?thesis
    unfolding cos_center_def center_radians c_def [symmetric]
    using lo hi by blast
qed
lemma example_projection_ok: "arrays_ok example_projection"
  by (simp add: arrays_ok_def example_projection_def MAX_AIRCRAFTS_def)

lemma example_projection_nth:
  "currentAircrafts example_projection ! 0 = aircraft_UAL123"
  "currentAircrafts example_projection ! 1 = aircraft_DAL456"
  "currentAircrafts example_projection ! 2 = aircraft_AAL100"
  "currentAircrafts example_projection ! 3 = aircraft_SWA789"
  by (simp_all add: example_projection_def)

lemma UAL123_angle: "angle ideal_platform aircraft_UAL123 = 0"
  by (simp add: angle_def UAL123_at_center ideal_platform_fields atan2_ideal_def)

lemma AAL100_from_center:
  "distance_latitude_km ideal_platform aircraft_AAL100 = 2783 / 250"
  "distance_longitude_km ideal_platform aircraft_AAL100 = 0"
  by (simp_all add: distance_latitude_km_def distance_longitude_km_def aircraft_AAL100_def
        ideal_platform_fields of_rat_divide)

lemma AAL100_distance: "distance_from_center ideal_platform aircraft_AAL100 = 2783 / 250"
  by (simp add: ideal_distance_on_meridian AAL100_from_center)

lemma AAL100_angle: "angle ideal_platform aircraft_AAL100 = pi / 2"
  by (simp add: angle_def AAL100_from_center ideal_platform_fields atan2_ideal_def)

lemma SWA789_from_center:
  "distance_latitude_km ideal_platform aircraft_SWA789 = 0"
  "distance_longitude_km ideal_platform aircraft_SWA789 = 2783 / 250 * cos_center"
proof -
  show "distance_latitude_km ideal_platform aircraft_SWA789 = 0"
    by (simp add: distance_latitude_km_def aircraft_SWA789_def)
  have "distance_longitude_km ideal_platform aircraft_SWA789 =
        (longitude aircraft_SWA789 - CENTER_LONGITUDE ideal_platform) *
        (flit ideal_platform (11132 / 100) * cos_center)"
    by (simp only: distance_longitude_km_def Let_def cos_center_def ideal_platform_fields(5))
  then show "distance_longitude_km ideal_platform aircraft_SWA789 = 2783 / 250 * cos_center"
    by (simp add: aircraft_SWA789_def ideal_platform_fields of_rat_divide)
qed

lemma SWA789_east_positive: "0 < 2783 / 250 * cos_center"
  using cos_center_bounds by simp

lemma SWA789_distance: "distance_from_center ideal_platform aircraft_SWA789 = 2783 / 250 * cos_center"
  using SWA789_east_positive
  by (simp add: ideal_distance_on_parallel SWA789_from_center)

lemma SWA789_angle: "angle ideal_platform aircraft_SWA789 = 0"
  using SWA789_east_positive
  by (simp add: angle_def SWA789_from_center ideal_platform_fields atan2_ideal_def)
lemmas projection_terms =
  distance_from_center_def angle_def distance_latitude_km_def distance_longitude_km_def
  CENTER_LATITUDE_def CENTER_LONGITUDE_def M_PI_def Let_def

lemma truncate_ideal_between:
  "of_int k \<le> x \<Longrightarrow> x < of_int k + 1 \<Longrightarrow> 0 \<le> k \<Longrightarrow> truncate_ideal x = k"
proof -
  assume a: "of_int k \<le> x" "x < of_int k + 1" "0 \<le> k"
  then have "0 \<le> x" by (metis of_int_0_le_iff order_trans)
  moreover have "\<lfloor>x\<rfloor> = k" using a by (simp add: floor_unique)
  ultimately show ?thesis by (simp add: truncate_ideal_def)
qed

text \<open>
  C6. For the record at a live index \<open>i\<close>, with \<open>north_km\<close> and \<open>east_km\<close> its offsets
  from the reference point (29.6465, -82.3533) at 111.32 km per degree, the longitude
  offset scaled by the cosine of the reference latitude, \<open>distance\<close> the square root of
  the sum of their squares and \<open>bearing\<close> the \<open>atan2f\<close> of the two: when \<open>distance\<close>
  exceeds the display range, the pass marks the record not visible, and when \<open>i\<close> was
  the selection the selection becomes \<open>-1\<close> and \<open>sem_INFO_DISPLAY\<close> is signalled once;
  otherwise it marks the record visible and stores the screen coordinates: the radar
  centre (half of \<open>X_MAX\<close>, 175) plus (for x) or minus (for y) the truncated offset of
  length \<open>distance * (100 / display_range_km)\<close> along \<open>bearing\<close>. The code passes each
  coordinate through \<open>abs\<close> and an \<open>int16_t\<close> store, which leave it as it is whenever
  it lies in \<open>0 .. 32767\<close>, as it does on the display.
\<close>

theorem recalculate_marks_and_maps:
  assumes "arrays_ok s" and "i < nat (currentAircraftCount s)"
  shows "(let aircraft = currentAircrafts s ! i;
              s' = recalculate_screen_positions E s;
              aircraft' = currentAircrafts s' ! i;
              center_latitude = flit E (296465 / 10000);
              center_longitude = flit E (- 823533 / 10000);
              north_km = (latitude aircraft - center_latitude) * flit E (11132 / 100);
              east_km = (longitude aircraft - center_longitude) *
                        (flit E (11132 / 100) *
                         cosf E (center_latitude *
                                 (flit E (314159265358979323846 / 100000000000000000000) /
                                  flit E 180)));
              distance = sqrtf E (north_km * north_km + east_km * east_km);
              bearing = atan2f E north_km east_km;
              scale = flit E 100 / float_of_int E (display_range_km s);
              dx = int16_of_float E (distance * scale * cosf E bearing);
              dy = int16_of_float E (distance * scale * sinf E bearing);
              center_x = int16 (c_div (X_MAX E) 2);
              center_y = 175
          in if distance > float_of_int E (display_range_km s)
             then on_screen aircraft' = 0 \<and>
                  (selectedAircraft s = int i \<longrightarrow>
                     selectedAircraft s' = - 1 \<and> sem_INFO_DISPLAY s' = Suc (sem_INFO_DISPLAY s))
             else on_screen aircraft' = 1 \<and>
                  screen_x aircraft' = int16 \<bar>int16 (center_x + dx)\<bar> \<and>
                  screen_y aircraft' = int16 \<bar>int16 (center_y - dy)\<bar> \<and>
                  (0 \<le> center_x + dx \<and> center_x + dx < 32768 \<longrightarrow>
                     screen_x aircraft' = center_x + dx) \<and>
                  (0 \<le> center_y - dy \<and> center_y - dy < 32768 \<longrightarrow>
                     screen_y aircraft' = center_y - dy))"
proof -
  have cy: "radar_center_y = 175"
    by (simp add: radar_center_y_def int16_def c_div_def)
  show ?thesis
    using recalculate_record_effect [OF assms, of E]
    unfolding Let_def distance_from_center_def angle_def distance_latitude_km_def
      distance_longitude_km_def CENTER_LATITUDE_def CENTER_LONGITUDE_def M_PI_def
      radar_center_x_def cy
    by blast
qed

theorem recalculate_marks_and_maps_witness:
  "arrays_ok example_projection \<and>
   selectedAircraft example_projection = 1 \<and>
   on_screen (currentAircrafts (recalculate_screen_positions ideal_platform example_projection) ! 1) = 0 \<and>
   selectedAircraft (recalculate_screen_positions ideal_platform example_projection) = - 1 \<and>
   sem_INFO_DISPLAY (recalculate_screen_positions ideal_platform example_projection) = 1 \<and>
   on_screen (currentAircrafts (recalculate_screen_positions ideal_platform example_projection) ! 0) = 1 \<and>
   screen_x (currentAircrafts (recalculate_screen_positions ideal_platform example_projection) ! 0) = 120 \<and>
   screen_y (currentAircrafts (recalculate_screen_positions ideal_platform example_projection) ! 0) = 175 \<and>
   on_screen (currentAircrafts (recalculate_screen_positions ideal_platform example_projection) ! 2) = 1 \<and>
   screen_x (currentAircrafts (recalculate_screen_positions ideal_platform example_projection) ! 2) = 120 \<and>
   screen_y (currentAircrafts (recalculate_screen_positions ideal_platform example_projection) ! 2) = 153 \<and>
   on_screen (currentAircrafts (recalculate_screen_positions ideal_platform example_projection) ! 3) = 1 \<and>
   screen_x (currentAircrafts (recalculate_screen_positions ideal_platform example_projection) ! 3) = 139 \<and>
   screen_y (currentAircrafts (recalculate_screen_positions ideal_platform example_projection) ! 3) = 175"
proof -
  let ?s' = "recalculate_screen_positions ideal_platform example_projection"
  note ok = example_projection_ok
  have n0: "0 < nat (currentAircraftCount example_projection)"
   and n1: "1 < nat (currentAircraftCount example_projection)"
   and n2: "2 < nat (currentAircraftCount example_projection)"
   and n3: "3 < nat (currentAircraftCount example_projection)"
   and sel: "selectedAircraft example_projection = 1"
   and sem: "sem_INFO_DISPLAY example_projection = 0"
   and rng: "display_range_km example_projection = 50"
    by (simp_all add: example_projection_def)
  have cx: "int16 (c_div 240 2) = 120"
    by (simp add: c_div_def int16_def)
  have wrap: "int16 \<bar>int16 x\<bar> = x" if "0 \<le> x" "x < 32768" for x
    using that by (simp add: int16_def)
  note f = ideal_platform_fields
  \<comment> \<open>index 1: DAL456, 111 km north, selected\<close>
  note t1 = recalculate_marks_and_maps [OF ok n1, of ideal_platform,
      unfolded Let_def example_projection_nth DAL456_distance [unfolded projection_terms]]
  have far: "on_screen (currentAircrafts ?s' ! 1) = 0 \<and> selectedAircraft ?s' = - 1 \<and>
             sem_INFO_DISPLAY ?s' = 1"
    using t1 by (simp add: f rng sel sem)
  \<comment> \<open>index 0: UAL123, at the reference point\<close>
  note t0 = recalculate_marks_and_maps [OF ok n0, of ideal_platform,
      unfolded Let_def example_projection_nth UAL123_distance [unfolded projection_terms]
        UAL123_angle [unfolded projection_terms]]
  have tr0: "truncate_ideal 0 = 0" by (simp add: truncate_ideal_def)
  have centre: "on_screen (currentAircrafts ?s' ! 0) = 1 \<and> screen_x (currentAircrafts ?s' ! 0) = 120 \<and>
                screen_y (currentAircrafts ?s' ! 0) = 175"
    using t0 by (simp add: f rng cx tr0 wrap)
  \<comment> \<open>index 2: AAL100, 11.132 km due north\<close>
  note t2 = recalculate_marks_and_maps [OF ok n2, of ideal_platform,
      unfolded Let_def example_projection_nth AAL100_distance [unfolded projection_terms]
        AAL100_angle [unfolded projection_terms]]
  have tr2: "truncate_ideal (2783 / 125) = 22"
    by (rule truncate_ideal_between) simp_all
  have north: "on_screen (currentAircrafts ?s' ! 2) = 1 \<and> screen_x (currentAircrafts ?s' ! 2) = 120 \<and>
               screen_y (currentAircrafts ?s' ! 2) = 153"
    using t2 by (simp add: f rng cx tr0 tr2 wrap)
  \<comment> \<open>index 3: SWA789, 0.1 degrees due east\<close>
  note t3 = recalculate_marks_and_maps [OF ok n3, of ideal_platform,
      unfolded Let_def example_projection_nth SWA789_distance [unfolded projection_terms]
        SWA789_angle [unfolded projection_terms]]
  have in_range: "\<not> 50 < 2783 / 250 * cos_center"
    using cos_center_bounds by simp
  have tr3: "truncate_ideal (2783 / 250 * cos_center * (100 / 50) * 1) = 19"
    using cos_center_bounds by (intro truncate_ideal_between) simp_all
  have east: "on_screen (currentAircrafts ?s' ! 3) = 1 \<and> screen_x (currentAircrafts ?s' ! 3) = 139 \<and>
              screen_y (currentAircrafts ?s' ! 3) = 175"
    using t3 in_range tr3 by (simp add: f rng cx tr0 wrap)
  show ?thesis
    using ok sel far centre north east by simp
qed

section \<open>Properties of the selection\<close>

lemma scan_min:
  fixes key :: "nat \<Rightarrow> 'k::linorder"
  assumes "\<And>i. i < n \<Longrightarrow> q i \<Longrightarrow> key i < m0"
  shows "if \<exists>i<n. q i
         then \<exists>k<n. fold (scan_step q key) [0..<n] (c0, m0) = (int k, key k) \<and> q k \<and>
                (\<forall>i<n. q i \<longrightarrow> key k \<le> key i) \<and> (\<forall>i<k. q i \<longrightarrow> key k < key i)
         else fold (scan_step q key) [0..<n] (c0, m0) = (c0, m0)"
  using assms
proof (induction n)
  case 0
  then show ?case by simp
next
  case (Suc n)
  let ?r = "fold (scan_step q key) [0..<n] (c0, m0)"
  have step: "fold (scan_step q key) [0..<Suc n] (c0, m0) = scan_step q key n ?r"
    by simp
  have IH: "if \<exists>i<n. q i
         then \<exists>k<n. ?r = (int k, key k) \<and> q k \<and>
                (\<forall>i<n. q i \<longrightarrow> key k \<le> key i) \<and> (\<forall>i<k. q i \<longrightarrow> key k < key i)
         else ?r = (c0, m0)"
    using Suc by simp
  show ?case
  proof (cases "\<exists>i<n. q i")
    case False
    then have r: "?r = (c0, m0)" using IH by simp
    show ?thesis
    proof (cases "q n")
      case True
      then have "key n < m0" using Suc.prems by simp
      then have "scan_step q key n ?r = (int n, key n)"
        using True by (simp add: r scan_step_def)
      moreover have "\<forall>i<Suc n. q i \<longrightarrow> key n \<le> key i"
        using False by (auto simp: less_Suc_eq)
      moreover have "\<forall>i<n. q i \<longrightarrow> key n < key i"
        using False by auto
      ultimately show ?thesis
        unfolding step using True by auto
    next
      case nq: False
      then have res: "fold (scan_step q key) [0..<Suc n] (c0, m0) = (c0, m0)"
        unfolding step by (simp add: r scan_step_def)
      have nex: "\<not> (\<exists>i<Suc n. q i)"
        using False nq by (auto simp: less_Suc_eq)
      show ?thesis
        using res by (simp only: nex if_False)
    qed
  next
    case True
    then obtain k where k: "k < n" "?r = (int k, key k)" "q k"
      "\<forall>i<n. q i \<longrightarrow> key k \<le> key i" "\<forall>i<k. q i \<longrightarrow> key k < key i"
      using IH by auto
    have ex: "\<exists>i<Suc n. q i" using True by (auto simp: less_Suc_eq)
    show ?thesis
    proof (cases "q n \<and> key n < key k")
      case better: True
      then have "scan_step q key n ?r = (int n, key n)"
        by (simp add: k(2) scan_step_def)
      moreover have "\<forall>i<Suc n. q i \<longrightarrow> key n \<le> key i"
        using better k(4) by (auto simp: less_Suc_eq)
      moreover have "\<forall>i<n. q i \<longrightarrow> key n < key i"
        using better k(4) by (meson less_le_trans)
      ultimately show ?thesis
        unfolding step using better ex by auto
    next
      case worse: False
      then have "scan_step q key n ?r = (int k, key k)"
        by (auto simp: k(2) scan_step_def)
      moreover have "\<forall>i<Suc n. q i \<longrightarrow> key k \<le> key i"
        using worse k(4) by (auto simp: less_Suc_eq)
      ultimately show ?thesis
        unfolding step using ex k(1,3,5) by auto
    qed
  qed
qed

lemma MIDPOINT_eq: "MIDPOINT = 2048"
  by (simp add: MIDPOINT_def c_div_def int16_def)

lemma exactly_one_direction:
  assumes "\<bar>dx\<bar> \<noteq> \<bar>dy\<bar>"
  shows "(goingEast dx dy \<and> \<not> goingWest dx dy \<and> \<not> goingNorth dx dy \<and> \<not> goingSouth dx dy) \<or>
         (\<not> goingEast dx dy \<and> goingWest dx dy \<and> \<not> goingNorth dx dy \<and> \<not> goingSouth dx dy) \<or>
         (\<not> goingEast dx dy \<and> \<not> goingWest dx dy \<and> goingNorth dx dy \<and> \<not> goingSouth dx dy) \<or>
         (\<not> goingEast dx dy \<and> \<not> goingWest dx dy \<and> \<not> goingNorth dx dy \<and> goingSouth dx dy)"
  unfolding goingEast_def goingWest_def goingNorth_def goingSouth_def
  using assms by linarith

lemma closest_step_scan:
  assumes "\<bar>jx - MIDPOINT\<bar> \<noteq> \<bar>jy - MIDPOINT\<bar>" and "i < nat (currentAircraftCount s)"
  shows "closest_step E s (jx - MIDPOINT) (jy - MIDPOINT)
           (latitude (currentAircrafts s ! nat (selectedAircraft s)))
           (longitude (currentAircrafts s ! nat (selectedAircraft s))) i acc =
         scan_step (candidate E s jx jy) (delta_toward E s jx jy) i acc"
  using exactly_one_direction [OF assms(1)] assms(2)
  by (elim disjE conjE)
     (simp_all add: closest_step_def scan_step_def candidate_def delta_toward_def lies_toward_def
        Let_def)

lemma closest_loop_scan:
  assumes "\<bar>jx - MIDPOINT\<bar> \<noteq> \<bar>jy - MIDPOINT\<bar>"
  shows "fold (closest_step E s (jx - MIDPOINT) (jy - MIDPOINT)
           (latitude (currentAircrafts s ! nat (selectedAircraft s)))
           (longitude (currentAircrafts s ! nat (selectedAircraft s))))
           [0..<nat (currentAircraftCount s)] acc =
         fold (scan_step (candidate E s jx jy) (delta_toward E s jx jy))
           [0..<nat (currentAircraftCount s)] acc"
proof (rule fold_cong)
  fix i assume "i \<in> set [0..<nat (currentAircraftCount s)]"
  then have "i < nat (currentAircraftCount s)" by simp
  then show "closest_step E s (jx - MIDPOINT) (jy - MIDPOINT)
           (latitude (currentAircrafts s ! nat (selectedAircraft s)))
           (longitude (currentAircrafts s ! nat (selectedAircraft s))) i =
         scan_step (candidate E s jx jy) (delta_toward E s jx jy) i"
    by (intro ext closest_step_scan [OF assms])
qed simp_all

lemma closest_aircraft_by_angle_scan:
  fixes E :: "'f::{minus,linorder} platform"
  assumes "arrays_ok s"
    and "0 \<le> selectedAircraft s" and "selectedAircraft s < currentAircraftCount s"
    and "\<bar>joystick_dx - 2048\<bar> \<noteq> \<bar>joystick_dy - 2048\<bar>"
    and "\<forall>i. candidate E s joystick_dx joystick_dy i \<longrightarrow>
             delta_toward E s joystick_dx joystick_dy i < FLT_MAX E"
  shows "if \<exists>i. candidate E s joystick_dx joystick_dy i
         then \<exists>k. closest_aircraft_by_angle E s joystick_dx joystick_dy = int k \<and>
                candidate E s joystick_dx joystick_dy k \<and>
                int k \<noteq> selectedAircraft s \<and>
                (\<forall>i. candidate E s joystick_dx joystick_dy i \<longrightarrow>
                   delta_toward E s joystick_dx joystick_dy k \<le> delta_toward E s joystick_dx joystick_dy i) \<and>
                (\<forall>i<k. candidate E s joystick_dx joystick_dy i \<longrightarrow>
                   delta_toward E s joystick_dx joystick_dy k < delta_toward E s joystick_dx joystick_dy i)
         else closest_aircraft_by_angle E s joystick_dx joystick_dy = selectedAircraft s"
proof -
  let ?n = "nat (currentAircraftCount s)"
  let ?q = "candidate E s joystick_dx joystick_dy"
  let ?key = "delta_toward E s joystick_dx joystick_dy"
  let ?r = "fold (scan_step ?q ?key) [0..<?n] (- 1, FLT_MAX E)"
  have dom: "\<bar>joystick_dx - MIDPOINT\<bar> \<noteq> \<bar>joystick_dy - MIDPOINT\<bar>"
    using assms(4) by (simp add: MIDPOINT_eq)
  have sel: "selectedAircraft s \<noteq> - 1" using assms(2) by simp
  have res: "closest_aircraft_by_angle E s joystick_dx joystick_dy =
             (if fst ?r = - 1 then selectedAircraft s else fst ?r)"
    using sel by (simp add: closest_aircraft_by_angle_def Let_def closest_loop_scan [OF dom])
  have bound: "\<And>i. i < ?n \<Longrightarrow> ?q i \<Longrightarrow> ?key i < FLT_MAX E"
    using assms(5) by simp
  have inn: "\<And>i. ?q i \<Longrightarrow> i < ?n"
    by (simp add: candidate_def)
  note scan = scan_min [of ?n ?q ?key "FLT_MAX E" "- 1", OF bound]
  show ?thesis
  proof (cases "\<exists>i. ?q i")
    case False
    then have "\<not> (\<exists>i<?n. ?q i)" by simp
    then have "?r = (- 1, FLT_MAX E)" using scan by simp
    then show ?thesis using False by (simp add: res)
  next
    case True
    then have "\<exists>i<?n. ?q i" using inn by auto
    then obtain k where k: "k < ?n" "?r = (int k, ?key k)" "?q k"
      "\<forall>i<?n. ?q i \<longrightarrow> ?key k \<le> ?key i" "\<forall>i<k. ?q i \<longrightarrow> ?key k < ?key i"
      using scan by auto
    have "closest_aircraft_by_angle E s joystick_dx joystick_dy = int k"
      by (simp add: res k(2))
    moreover have "int k \<noteq> selectedAircraft s"
      using k(3) by (simp add: candidate_def)
    moreover have "\<forall>i. ?q i \<longrightarrow> ?key k \<le> ?key i"
      using k(4) inn by auto
    ultimately show ?thesis
      using True k(3,5) by auto
  qed
qed

lemma scan_to_rule:
  assumes "\<And>i. candidate E s jx jy i = (eligible s i \<and> q i)"
    and "\<And>i. delta_toward E s jx jy i = key i"
    and "if \<exists>i. candidate E s jx jy i
         then \<exists>k. r = int k \<and> candidate E s jx jy k \<and> int k \<noteq> selectedAircraft s \<and>
                (\<forall>i. candidate E s jx jy i \<longrightarrow> delta_toward E s jx jy k \<le> delta_toward E s jx jy i) \<and>
                (\<forall>i<k. candidate E s jx jy i \<longrightarrow> delta_toward E s jx jy k < delta_toward E s jx jy i)
         else r = selectedAircraft s"
  shows "nearest_or_unchanged s q key r"
  using assms(3) unfolding nearest_or_unchanged_def assms(1,2) by (auto split: if_splits)

lemma nearest_or_unchanged_unique:
  fixes key :: "nat \<Rightarrow> 'k::linorder"
  assumes "nearest_or_unchanged s q key r" and "eligible s k0" and "q k0"
    and "\<forall>i. eligible s i \<and> q i \<longrightarrow> i = k0 \<or> key k0 < key i"
  shows "r = int k0"
proof -
  have "\<exists>i. eligible s i \<and> q i" using assms(2,3) by blast
  then obtain k where k: "r = int k" "eligible s k" "q k"
      "\<forall>i. eligible s i \<and> q i \<longrightarrow> key k \<le> key i"
    using assms(1) unfolding nearest_or_unchanged_def by auto
  have "key k \<le> key k0" using k(4) assms(2,3) by blast
  moreover have "k = k0 \<or> key k0 < key k" using assms(4) k(2,3) by blast
  ultimately have "k = k0" by auto
  then show ?thesis using k(1) by simp
qed

lemma example_compass_ok: "arrays_ok example_compass"
  by (simp add: arrays_ok_def example_compass_def MAX_AIRCRAFTS_def)

lemma below_6: "i < 6 \<Longrightarrow> i = 0 \<or> i = Suc 0 \<or> i = 2 \<or> i = 3 \<or> i = 4 \<or> i = (5::nat)"
  by arith

lemma example_compass_eligible:
  "eligible example_compass i = (i = Suc 0 \<or> i = 2 \<or> i = 4 \<or> i = 5)"
proof -
  have "eligible example_compass i \<Longrightarrow> i < 6"
    by (simp add: eligible_def example_compass_def)
  moreover have "\<not> eligible example_compass 0" "eligible example_compass (Suc 0)"
    "eligible example_compass 2" "\<not> eligible example_compass 3"
    "eligible example_compass 4" "eligible example_compass 5"
    by (simp_all add: eligible_def example_compass_def aircraft_DAL456_def)
  ultimately show ?thesis
    using below_6 [of i] by auto
qed

lemma example_compass_delta:
  "delta_longitude example_compass (Suc 0) = 2 / 10"
  "delta_longitude example_compass 2 = 1 / 10"
  "delta_longitude example_compass 4 = 0"
  "delta_longitude example_compass 5 = - (1 / 10)"
  "delta_latitude example_compass (Suc 0) = 0"
  "delta_latitude example_compass 2 = 0"
  "delta_latitude example_compass 4 = 1 / 10"
  "delta_latitude example_compass 5 = - (1 / 10)"
  by (simp_all add: delta_longitude_def delta_latitude_def example_compass_def
        aircraft_UAL123_def aircraft_JBU321_def aircraft_SWA789_def aircraft_AAL100_def
        aircraft_FDX200_def)

text \<open>
  C8. With an aircraft selected and a strictly dominant joystick axis, the offsets
  \<open>dx\<close> and \<open>dy\<close> taken from the midpoint 2048: a dominant x offset that is negative
  selects among the records with a positive longitude delta (east) by that delta, a
  positive one among those with a negative longitude delta (west) by its magnitude; a
  dominant y offset that is negative selects among the records with a positive
  latitude delta (north) by that delta, a positive one among those with a negative
  latitude delta (south) by its magnitude. In each case the result is the index of a
  visible live record other than the selected one with the smallest such delta (the
  first in scan order), never the selected index, and the current selection when no
  record qualifies. One of the four cases always applies. The deltas compared are
  assumed below \<open>FLT_MAX\<close>, the loop's initial minimum.
\<close>

theorem closest_aircraft_by_angle_nearest:
  fixes E :: "'f::{minus,linorder} platform"
  assumes "arrays_ok s"
    and "0 \<le> selectedAircraft s" and "selectedAircraft s < currentAircraftCount s"
    and "\<bar>joystick_dx - 2048\<bar> \<noteq> \<bar>joystick_dy - 2048\<bar>"
    and "\<forall>i. eligible s i \<longrightarrow>
           delta_longitude s i < FLT_MAX E \<and> fabsf E (delta_longitude s i) < FLT_MAX E \<and>
           delta_latitude s i < FLT_MAX E \<and> fabsf E (delta_latitude s i) < FLT_MAX E"
  shows "(let dx = joystick_dx - 2048;
              dy = joystick_dy - 2048;
              r = closest_aircraft_by_angle E s joystick_dx joystick_dy
          in (\<bar>dx\<bar> > \<bar>dy\<bar> \<and> dx < 0 \<longrightarrow>
                nearest_or_unchanged s (\<lambda>i. delta_longitude s i > flit E 0)
                  (\<lambda>i. delta_longitude s i) r) \<and>
             (\<bar>dx\<bar> > \<bar>dy\<bar> \<and> dx > 0 \<longrightarrow>
                nearest_or_unchanged s (\<lambda>i. delta_longitude s i < flit E 0)
                  (\<lambda>i. fabsf E (delta_longitude s i)) r) \<and>
             (\<bar>dy\<bar> > \<bar>dx\<bar> \<and> dy < 0 \<longrightarrow>
                nearest_or_unchanged s (\<lambda>i. delta_latitude s i > flit E 0)
                  (\<lambda>i. delta_latitude s i) r) \<and>
             (\<bar>dy\<bar> > \<bar>dx\<bar> \<and> dy > 0 \<longrightarrow>
                nearest_or_unchanged s (\<lambda>i. delta_latitude s i < flit E 0)
                  (\<lambda>i. fabsf E (delta_latitude s i)) r) \<and>
             ((\<bar>dx\<bar> > \<bar>dy\<bar> \<and> dx < 0) \<or> (\<bar>dx\<bar> > \<bar>dy\<bar> \<and> dx > 0) \<or>
              (\<bar>dy\<bar> > \<bar>dx\<bar> \<and> dy < 0) \<or> (\<bar>dy\<bar> > \<bar>dx\<bar> \<and> dy > 0)))"
proof -
  let ?dx = "joystick_dx - 2048" and ?dy = "joystick_dy - 2048"
  let ?r = "closest_aircraft_by_angle E s joystick_dx joystick_dy"
  have cand: "candidate E s joystick_dx joystick_dy i =
              (eligible s i \<and> lies_toward E s joystick_dx joystick_dy i)" for i
    by (auto simp: candidate_def eligible_def)
  have bound: "\<forall>i. candidate E s joystick_dx joystick_dy i \<longrightarrow>
                 delta_toward E s joystick_dx joystick_dy i < FLT_MAX E"
    using assms(5)
    by (auto simp: cand delta_toward_def Let_def delta_longitude_def delta_latitude_def)
  note scan = closest_aircraft_by_angle_scan [OF assms(1-4) bound]
  have east: "nearest_or_unchanged s (\<lambda>i. delta_longitude s i > flit E 0)
                (\<lambda>i. delta_longitude s i) ?r"
    if "\<bar>?dx\<bar> > \<bar>?dy\<bar>" "?dx < 0"
  proof (rule scan_to_rule [OF _ _ scan])
    show "candidate E s joystick_dx joystick_dy i =
          (eligible s i \<and> flit E 0 < delta_longitude s i)" for i
      using that
      by (simp add: cand lies_toward_def Let_def MIDPOINT_eq goingEast_def delta_longitude_def)
    show "delta_toward E s joystick_dx joystick_dy i = delta_longitude s i" for i
      using that
      by (simp add: delta_toward_def Let_def MIDPOINT_eq goingEast_def delta_longitude_def)
  qed
  have west: "nearest_or_unchanged s (\<lambda>i. delta_longitude s i < flit E 0)
                (\<lambda>i. fabsf E (delta_longitude s i)) ?r"
    if "\<bar>?dx\<bar> > \<bar>?dy\<bar>" "?dx > 0"
  proof (rule scan_to_rule [OF _ _ scan])
    show "candidate E s joystick_dx joystick_dy i =
          (eligible s i \<and> delta_longitude s i < flit E 0)" for i
      using that
      by (simp add: cand lies_toward_def Let_def MIDPOINT_eq goingEast_def goingWest_def
            delta_longitude_def)
    show "delta_toward E s joystick_dx joystick_dy i = fabsf E (delta_longitude s i)" for i
      using that
      by (simp add: delta_toward_def Let_def MIDPOINT_eq goingEast_def goingWest_def
            delta_longitude_def)
  qed
  have north: "nearest_or_unchanged s (\<lambda>i. delta_latitude s i > flit E 0)
                (\<lambda>i. delta_latitude s i) ?r"
    if "\<bar>?dy\<bar> > \<bar>?dx\<bar>" "?dy < 0"
  proof (rule scan_to_rule [OF _ _ scan])
    show "candidate E s joystick_dx joystick_dy i =
          (eligible s i \<and> flit E 0 < delta_latitude s i)" for i
      using that
      by (simp add: cand lies_toward_def Let_def MIDPOINT_eq goingEast_def goingWest_def
            goingNorth_def delta_latitude_def)
    show "delta_toward E s joystick_dx joystick_dy i = delta_latitude s i" for i
      using that
      by (simp add: delta_toward_def Let_def MIDPOINT_eq goingEast_def goingWest_def
            goingNorth_def delta_latitude_def)
  qed
  have south: "nearest_or_unchanged s (\<lambda>i. delta_latitude s i < flit E 0)
                (\<lambda>i. fabsf E (delta_latitude s i)) ?r"
    if "\<bar>?dy\<bar> > \<bar>?dx\<bar>" "?dy > 0"
  proof (rule scan_to_rule [OF _ _ scan])
    show "candidate E s joystick_dx joystick_dy i =
          (eligible s i \<and> delta_latitude s i < flit E 0)" for i
      using that
      by (simp add: cand lies_toward_def Let_def MIDPOINT_eq goingEast_def goingWest_def
            goingNorth_def goingSouth_def delta_latitude_def)
    show "delta_toward E s joystick_dx joystick_dy i = fabsf E (delta_latitude s i)" for i
      using that
      by (simp add: delta_toward_def Let_def MIDPOINT_eq goingEast_def goingWest_def
            goingNorth_def goingSouth_def delta_latitude_def)
  qed
  have dir: "(\<bar>?dx\<bar> > \<bar>?dy\<bar> \<and> ?dx < 0) \<or> (\<bar>?dx\<bar> > \<bar>?dy\<bar> \<and> ?dx > 0) \<or>
             (\<bar>?dy\<bar> > \<bar>?dx\<bar> \<and> ?dy < 0) \<or> (\<bar>?dy\<bar> > \<bar>?dx\<bar> \<and> ?dy > 0)"
    using assms(4) by linarith
  show ?thesis
    unfolding Let_def using east west north south dir by blast
qed

theorem closest_aircraft_by_angle_nearest_witness:
  "arrays_ok example_compass \<and>
   0 \<le> selectedAircraft example_compass \<and>
   selectedAircraft example_compass < currentAircraftCount example_compass \<and>
   closest_aircraft_by_angle ideal_platform example_compass 0 2048 = 2 \<and>
   closest_aircraft_by_angle ideal_platform example_compass 4095 2048 = 5 \<and>
   closest_aircraft_by_angle ideal_platform example_compass 2048 0 = 4 \<and>
   closest_aircraft_by_angle ideal_platform example_compass 2048 4095 = 5"
proof -
  note ok = example_compass_ok
  have sel: "0 \<le> selectedAircraft example_compass"
            "selectedAircraft example_compass < currentAircraftCount example_compass"
    by (simp_all add: example_compass_def)
  note f = ideal_platform_fields
  note e = example_compass_eligible example_compass_delta
  have fin: "\<forall>i. eligible example_compass i \<longrightarrow>
           delta_longitude example_compass i < FLT_MAX ideal_platform \<and>
           fabsf ideal_platform (delta_longitude example_compass i) < FLT_MAX ideal_platform \<and>
           delta_latitude example_compass i < FLT_MAX ideal_platform \<and>
           fabsf ideal_platform (delta_latitude example_compass i) < FLT_MAX ideal_platform"
    by (auto simp: e f)
  have d_east: "\<bar>0 - 2048\<bar> \<noteq> \<bar>2048 - (2048::int)\<bar>"
   and d_west: "\<bar>4095 - 2048\<bar> \<noteq> \<bar>2048 - (2048::int)\<bar>"
   and d_north: "\<bar>2048 - 2048\<bar> \<noteq> \<bar>0 - (2048::int)\<bar>"
   and d_south: "\<bar>2048 - 2048\<bar> \<noteq> \<bar>4095 - (2048::int)\<bar>"
    by simp_all
  have "nearest_or_unchanged example_compass
          (\<lambda>i. delta_longitude example_compass i > flit ideal_platform 0)
          (\<lambda>i. delta_longitude example_compass i)
          (closest_aircraft_by_angle ideal_platform example_compass 0 2048)"
    using closest_aircraft_by_angle_nearest [OF ok sel d_east fin] by (simp add: Let_def)
  then have east: "closest_aircraft_by_angle ideal_platform example_compass 0 2048 = int 2"
    by (rule nearest_or_unchanged_unique) (auto simp: e f)
  have "nearest_or_unchanged example_compass
          (\<lambda>i. delta_longitude example_compass i < flit ideal_platform 0)
          (\<lambda>i. fabsf ideal_platform (delta_longitude example_compass i))
          (closest_aircraft_by_angle ideal_platform example_compass 4095 2048)"
    using closest_aircraft_by_angle_nearest [OF ok sel d_west fin] by (simp add: Let_def)
  then have west: "closest_aircraft_by_angle ideal_platform example_compass 4095 2048 = int 5"
    by (rule nearest_or_unchanged_unique) (auto simp: e f)
  have "nearest_or_unchanged example_compass
          (\<lambda>i. delta_latitude example_compass i > flit ideal_platform 0)
          (\<lambda>i. delta_latitude example_compass i)
          (closest_aircraft_by_angle ideal_platform example_compass 2048 0)"
    using closest_aircraft_by_angle_nearest [OF ok sel d_north fin] by (simp add: Let_def)
  then have north: "closest_aircraft_by_angle ideal_platform example_compass 2048 0 = int 4"
    by (rule nearest_or_unchanged_unique) (auto simp: e f)
  have "nearest_or_unchanged example_compass
          (\<lambda>i. delta_latitude example_compass i < flit ideal_platform 0)
          (\<lambda>i. fabsf ideal_platform (delta_latitude example_compass i))
          (closest_aircraft_by_angle ideal_platform example_compass 2048 4095)"
    using closest_aircraft_by_angle_nearest [OF ok sel d_south fin] by (simp add: Let_def)
  then have south: "closest_aircraft_by_angle ideal_platform example_compass 2048 4095 = int 5"
    by (rule nearest_or_unchanged_unique) (auto simp: e f)
  show ?thesis
    using ok sel east west north south by simp
qed

lemma closest_step_neutral:
  assumes "\<bar>dx\<bar> = \<bar>dy\<bar>"
  shows "closest_step E s dx dy refLatitude refLongitude i acc = acc"
  using assms
  by (simp add: closest_step_def Let_def goingEast_def goingWest_def goingNorth_def goingSouth_def)

lemma closest_loop_neutral:
  assumes "\<bar>dx\<bar> = \<bar>dy\<bar>"
  shows "fold (closest_step E s dx dy refLatitude refLongitude) is acc = acc"
  by (induction "is") (simp_all add: closest_step_neutral [OF assms])

text \<open>
  C10. When the two joystick offsets from the midpoint 2048 have equal magnitude (the
  exact midpoint included), none of the four direction flags is set and the function
  returns the current selection.
\<close>

theorem equal_offsets_keep_selection:
  assumes "\<bar>joystick_dx - 2048\<bar> = \<bar>joystick_dy - 2048\<bar>"
  shows "\<not> goingWest (joystick_dx - MIDPOINT) (joystick_dy - MIDPOINT) \<and>
         \<not> goingEast (joystick_dx - MIDPOINT) (joystick_dy - MIDPOINT) \<and>
         \<not> goingSouth (joystick_dx - MIDPOINT) (joystick_dy - MIDPOINT) \<and>
         \<not> goingNorth (joystick_dx - MIDPOINT) (joystick_dy - MIDPOINT) \<and>
         closest_aircraft_by_angle E s joystick_dx joystick_dy = selectedAircraft s"
proof -
  have eq: "\<bar>joystick_dx - MIDPOINT\<bar> = \<bar>joystick_dy - MIDPOINT\<bar>"
    using assms by (simp add: MIDPOINT_eq)
  have "closest_aircraft_by_angle E s joystick_dx joystick_dy = selectedAircraft s"
    by (simp add: closest_aircraft_by_angle_def Let_def closest_loop_neutral [OF eq])
  then show ?thesis
    using eq by (simp add: goingEast_def goingWest_def goingNorth_def goingSouth_def)
qed

theorem equal_offsets_keep_selection_witness:
  "\<bar>2048 - 2048\<bar> = \<bar>2048 - (2048::int)\<bar> \<and>
   closest_aircraft_by_angle ideal_platform example_display 2048 2048 = 0 \<and>
   \<bar>3000 - 2048\<bar> = \<bar>1096 - (2048::int)\<bar> \<and>
   closest_aircraft_by_angle ideal_platform example_display 3000 1096 = 0"
proof -
  have a: "\<bar>2048 - 2048\<bar> = \<bar>2048 - (2048::int)\<bar>" by simp
  have b: "\<bar>3000 - 2048\<bar> = \<bar>1096 - (2048::int)\<bar>" by simp
  have sel: "selectedAircraft example_display = 0"
    by (simp add: example_display_def)
  show ?thesis
    using equal_offsets_keep_selection [OF a, of ideal_platform example_display]
      equal_offsets_keep_selection [OF b, of ideal_platform example_display]
    by (simp add: sel)
qed

lemma square_mod_4: "(a * a) mod 4 = 0 \<or> (a * a) mod 4 = (1::int)"
proof (cases "even a")
  case True
  then obtain k where "a = 2 * k" by (auto elim: evenE)
  then have "a * a = 4 * (k * k)" by simp
  then show ?thesis by simp
next
  case False
  then obtain k where "a = 2 * k + 1" by (auto elim: oddE)
  then have "a * a = 1 + 4 * (k * k + k)" by (simp add: algebra_simps)
  then have "(a * a) mod 4 = (1 + 4 * (k * k + k)) mod 4" by simp
  also have "\<dots> = 1" by (simp only: mod_mult_self2) simp
  finally show ?thesis by simp
qed

lemma sum_of_squares_not_INT32_MAX: "a * a + b * b \<noteq> INT32_MAX" for a b :: int
proof
  assume eq: "a * a + b * b = INT32_MAX"
  have "(a * a + b * b) mod 4 = ((a * a) mod 4 + (b * b) mod 4) mod 4"
    by (simp add: mod_add_eq)
  moreover have "INT32_MAX mod 4 = 3" by (simp add: INT32_MAX_def)
  ultimately have "((a * a) mod 4 + (b * b) mod 4) mod 4 = 3"
    using eq by simp
  then show False
    using square_mod_4 [of a] square_mod_4 [of b] by auto
qed

lemma center_distance_below_INT32_MAX:
  "center_distance E a \<le> INT32_MAX \<Longrightarrow> center_distance E a < INT32_MAX"
proof -
  assume le: "center_distance E a \<le> INT32_MAX"
  have "center_distance E a \<noteq> INT32_MAX"
    unfolding center_distance_def Let_def by (rule sum_of_squares_not_INT32_MAX)
  then show ?thesis using le by simp
qed

text \<open>The loop only ever writes \<open>selectedAircraft\<close>.\<close>

lemma select_step_scan:
  "select_step E i (s, m) =
     (s\<lparr>selectedAircraft :=
          fst (scan_step (\<lambda>i. on_screen (currentAircrafts s ! i) \<noteq> 0)
                 (\<lambda>i. center_distance E (currentAircrafts s ! i)) i (selectedAircraft s, m))\<rparr>,
      snd (scan_step (\<lambda>i. on_screen (currentAircrafts s ! i) \<noteq> 0)
             (\<lambda>i. center_distance E (currentAircrafts s ! i)) i (selectedAircraft s, m)))"
  by (simp add: select_step_def scan_step_def Let_def)

lemma select_loop_scan:
  "fold (select_step E) is (s\<lparr>selectedAircraft := c\<rparr>, m) =
     (s\<lparr>selectedAircraft :=
          fst (fold (scan_step (\<lambda>i. on_screen (currentAircrafts s ! i) \<noteq> 0)
                 (\<lambda>i. center_distance E (currentAircrafts s ! i))) is (c, m))\<rparr>,
      snd (fold (scan_step (\<lambda>i. on_screen (currentAircrafts s ! i) \<noteq> 0)
             (\<lambda>i. center_distance E (currentAircrafts s ! i))) is (c, m)))"
proof (induction "is" arbitrary: c m)
  case Nil
  then show ?case by simp
next
  case (Cons i "is")
  let ?q = "\<lambda>i. on_screen (currentAircrafts s ! i) \<noteq> 0"
  let ?key = "\<lambda>i. center_distance E (currentAircrafts s ! i)"
  obtain c' m' where st: "scan_step ?q ?key i (c, m) = (c', m')"
    by (cases "scan_step ?q ?key i (c, m)")
  have "select_step E i (s\<lparr>selectedAircraft := c\<rparr>, m) = (s\<lparr>selectedAircraft := c'\<rparr>, m')"
    using st by (simp add: select_step_scan)
  then show ?case
    using Cons.IH [of c' m'] st by simp
qed

text \<open>
  What the confirm loop does compute: the first visible record at minimum squared
  distance from the point (\<open>X_MAX / 2\<close>, \<open>(Y_MAX + (Y_MAX - 70) / 2) / 2\<close>).
\<close>

lemma confirm_selects_nearest_to_loop_point:
  assumes "arrays_ok s" and "selectedAircraft s = - 1" and "press_status \<noteq> 0"
    and "\<forall>i. visible s i \<longrightarrow> center_distance E (currentAircrafts s ! i) \<le> INT32_MAX"
  shows "if \<exists>i. visible s i
         then \<exists>k. selectedAircraft (Select_Aircraft_confirm E press_status s) = int k \<and>
                visible s k \<and>
                (\<forall>i. visible s i \<longrightarrow>
                   center_distance E (currentAircrafts s ! k) \<le> center_distance E (currentAircrafts s ! i)) \<and>
                (\<forall>i<k. visible s i \<longrightarrow>
                   center_distance E (currentAircrafts s ! k) < center_distance E (currentAircrafts s ! i))
         else selectedAircraft (Select_Aircraft_confirm E press_status s) = - 1"
proof -
  let ?n = "nat (currentAircraftCount s)"
  let ?q = "\<lambda>i. on_screen (currentAircrafts s ! i) \<noteq> 0"
  let ?key = "\<lambda>i. center_distance E (currentAircrafts s ! i)"
  let ?r = "fold (scan_step ?q ?key) [0..<?n] (- 1, INT32_MAX)"
  have "fold (select_step E) [0..<?n] (s\<lparr>selectedAircraft := - 1\<rparr>, INT32_MAX) =
        (s\<lparr>selectedAircraft := fst ?r\<rparr>, snd ?r)"
    by (rule select_loop_scan)
  moreover have "s\<lparr>selectedAircraft := - 1\<rparr> = s"
    using assms(2) by simp
  ultimately have res: "selectedAircraft (Select_Aircraft_confirm E press_status s) = fst ?r"
    using assms(3) by (simp add: Select_Aircraft_confirm_def Let_def)
  have vis: "\<And>i. visible s i = (i < ?n \<and> ?q i)"
    by (simp add: visible_def)
  have bound: "\<And>i. i < ?n \<Longrightarrow> ?q i \<Longrightarrow> ?key i < INT32_MAX"
    using assms(4) by (simp add: vis center_distance_below_INT32_MAX)
  note scan = scan_min [of ?n ?q ?key INT32_MAX "- 1", OF bound]
  show ?thesis
  proof (cases "\<exists>i. visible s i")
    case False
    then have "\<not> (\<exists>i<?n. ?q i)" by (simp add: vis)
    then have "?r = (- 1, INT32_MAX)" using scan by simp
    then show ?thesis using False by (simp add: res)
  next
    case True
    then have "\<exists>i<?n. ?q i" by (simp add: vis)
    then obtain k where k: "k < ?n" "?r = (int k, ?key k)" "?q k"
      "\<forall>i<?n. ?q i \<longrightarrow> ?key k \<le> ?key i" "\<forall>i<k. ?q i \<longrightarrow> ?key k < ?key i"
      using scan by auto
    have "selectedAircraft (Select_Aircraft_confirm E press_status s) = int k"
      by (simp add: res k(2))
    moreover have "visible s k" using k(1,3) by (simp add: vis)
    moreover have "\<forall>i. visible s i \<longrightarrow> ?key k \<le> ?key i"
      using k(4) by (simp add: vis)
    moreover have "\<forall>i<k. visible s i \<longrightarrow> ?key k < ?key i"
      using k(5) by (simp add: vis)
    ultimately show ?thesis
      using True by auto
  qed
qed

text \<open>
  C9 (the code departs from it). On a 240 by 280 display the loop measures from
  (120, 192), while the radar centre that the projection and the drawing use is
  (120, 175). With \<open>UAL123\<close> exactly on the radar centre and \<open>NKS500\<close> 20 pixels below
  it, both visible and nothing selected, a confirm press selects \<open>NKS500\<close> (index 1),
  not the record at minimum distance from the display centre (index 0).
\<close>

theorem confirm_measures_from_below_center:
  "selectedAircraft example_confirm = - 1 \<and>
   on_screen (currentAircrafts example_confirm ! 0) \<noteq> 0 \<and>
   on_screen (currentAircrafts example_confirm ! 1) \<noteq> 0 \<and>
   screen_x (currentAircrafts example_confirm ! 0) = radar_center_x ideal_platform \<and>
   screen_y (currentAircrafts example_confirm ! 0) = radar_center_y \<and>
   (screen_x (currentAircrafts example_confirm ! 1) - radar_center_x ideal_platform) *
   (screen_x (currentAircrafts example_confirm ! 1) - radar_center_x ideal_platform) +
   (screen_y (currentAircrafts example_confirm ! 1) - radar_center_y) *
   (screen_y (currentAircrafts example_confirm ! 1) - radar_center_y) = 400 \<and>
   selectedAircraft (Select_Aircraft_confirm ideal_platform 1 example_confirm) = 1"
proof -
  have cx: "radar_center_x ideal_platform = 120" and cy: "radar_center_y = 175"
    by (simp_all add: radar_center_x_def radar_center_y_def int16_def c_div_def ideal_platform_def)
  have upt: "[0..<2] = [0, Suc 0]"
    by code_simp
  have n: "currentAircraftCount example_confirm = 2"
    by (simp add: example_confirm_def)
  have a0: "currentAircrafts example_confirm ! 0 =
            aircraft_UAL123\<lparr>on_screen := 1, screen_x := 120, screen_y := 175\<rparr>"
   and a1: "currentAircrafts example_confirm ! 1 =
            aircraft_NKS500\<lparr>on_screen := 1, screen_x := 120, screen_y := 195\<rparr>"
    by (simp_all add: example_confirm_def)
  have d0: "center_distance ideal_platform
              (aircraft_UAL123\<lparr>on_screen := 1, screen_x := 120, screen_y := 175\<rparr>) = 289"
   and d1: "center_distance ideal_platform
              (aircraft_NKS500\<lparr>on_screen := 1, screen_x := 120, screen_y := 195\<rparr>) = 9"
    by (simp_all add: center_distance_def Let_def c_div_def ideal_platform_def)
  have s0: "select_step ideal_platform 0 (example_confirm, INT32_MAX) =
            (example_confirm\<lparr>selectedAircraft := 0\<rparr>, 289)"
    by (simp add: select_step_def Let_def a0 d0 INT32_MAX_def)
  have a1': "currentAircrafts example_confirm ! Suc 0 =
             aircraft_NKS500\<lparr>on_screen := 1, screen_x := 120, screen_y := 195\<rparr>"
    using a1 by simp
  have s1: "select_step ideal_platform (Suc 0) (example_confirm\<lparr>selectedAircraft := 0\<rparr>, 289) =
            (example_confirm\<lparr>selectedAircraft := 1\<rparr>, 9)"
    by (simp add: select_step_def Let_def a1' d1)
  have "selectedAircraft (Select_Aircraft_confirm ideal_platform 1 example_confirm) = 1"
    by (simp add: Select_Aircraft_confirm_def Let_def n upt s0 s1)
  moreover have "selectedAircraft example_confirm = - 1"
    by (simp add: example_confirm_def)
  ultimately show ?thesis
    by (simp add: a0 a1' cx cy)
qed

section \<open>The selection across a commit\<close>

lemma commit_arrays_ok: "arrays_ok s \<Longrightarrow> arrays_ok (commit s)"
  by (auto simp: arrays_ok_def commit_currentAircrafts)
     (simp_all add: commit_def Let_def replace_loop_staging)

lemma Update_Current_Aircrafts_Thread_selectedAircraft:
  assumes "arrays_ok s"
  shows "selectedAircraft (Update_Current_Aircrafts_Thread E s) =
         (if selection_lost E (commit s) (nat (stagingAircraftCount s)) then - 1
          else selectedAircraft s)"
proof -
  have "currentAircraftCount (commit s) = stagingAircraftCount s"
    by (simp add: commit_def Let_def replace_loop_staging)
  then show ?thesis
    using assms
    by (simp add: Update_Current_Aircrafts_Thread_def Let_def recalculate_screen_positions_eq
          commit_arrays_ok after_recalculate_def commit_selectedAircraft)
qed

lemma commit_display_range_km: "display_range_km (commit s) = display_range_km s"
proof -
  have "display_range_km (fold (replace_step p) is s) = display_range_km s" for p "is"
    by (induction "is" arbitrary: s) (simp_all add: replace_step_def Let_def)
  then show ?thesis by (simp add: commit_def Let_def)
qed

lemma JBU321_within_range: "\<not> beyond_display_range ideal_platform 50 aircraft_JBU321"
proof -
  let ?c = "cos (CENTER_LATITUDE ideal_platform * (flit ideal_platform M_PI / flit ideal_platform 180))"
  have lat: "distance_latitude_km ideal_platform aircraft_JBU321 = 0"
    by (simp add: distance_latitude_km_def aircraft_JBU321_def)
  have lon: "distance_longitude_km ideal_platform aircraft_JBU321 = 2000 / 10000 * (11132 / 100 * ?c)"
    by (simp add: distance_longitude_km_def aircraft_JBU321_def Let_def ideal_platform_fields
          of_rat_divide)
  have "distance_from_center ideal_platform aircraft_JBU321 = \<bar>2000 / 10000 * (11132 / 100 * ?c)\<bar>"
    by (simp only: ideal_distance_on_parallel [OF lat] lon)
  also have "\<dots> = 2000 / 10000 * (11132 / 100) * \<bar>?c\<bar>"
    by (simp add: abs_mult)
  also have "\<dots> \<le> 2000 / 10000 * (11132 / 100) * 1"
    by (intro mult_left_mono abs_cos_le_one) simp
  finally have "distance_from_center ideal_platform aircraft_JBU321 \<le> 50" by simp
  then show ?thesis
    by (simp add: beyond_display_range_def ideal_platform_fields)
qed

lemma example_reordered_ok: "arrays_ok example_reordered"
  by (simp add: arrays_ok_def example_reordered_def example_display_def MAX_AIRCRAFTS_def)

lemma example_departed_ok: "arrays_ok example_departed"
  by (simp add: arrays_ok_def example_departed_def example_display_def MAX_AIRCRAFTS_def)

text \<open>
  C1 (the code departs from it). \<open>SWA789\<close> is selected at index 2 and the burst carries
  \<open>SWA789\<close> at index 0 and \<open>JBU321\<close> at index 2. After the commit, and after the whole
  round of the thread, the selection is still 2, the record there is \<open>JBU321\<close>: the
  test compares the address of slot \<open>i\<close>'s \<open>callsign\<close> array with the captured address,
  which can only agree at the old index.
\<close>

theorem commit_keeps_index_not_identifier:
  "selectedAircraft example_reordered = 2 \<and>
   callsign (currentAircrafts example_reordered ! 2) = callsign aircraft_SWA789 \<and>
   callsign (currentAircrafts (commit example_reordered) ! 0) = callsign aircraft_SWA789 \<and>
   selectedAircraft (commit example_reordered) = 2 \<and>
   callsign (currentAircrafts (commit example_reordered) ! 2) = callsign aircraft_JBU321 \<and>
   callsign aircraft_JBU321 \<noteq> callsign aircraft_SWA789 \<and>
   selectedAircraft (Update_Current_Aircrafts_Thread ideal_platform example_reordered) = 2"
proof -
  have c: "currentAircrafts (commit example_reordered) =
           aircraft_SWA789 # aircraft_UAL123 # aircraft_JBU321 # aircraft_DAL456 #
           replicate 196 zero_aircraft"
    by (simp add: commit_currentAircrafts [OF example_reordered_ok])
       (simp add: example_reordered_def example_display_def)
  have s0: "selectedAircraft example_reordered = 2"
    by (simp add: example_reordered_def)
  have s: "selectedAircraft (commit example_reordered) = 2"
    by (simp add: commit_selectedAircraft s0)
  have r: "display_range_km (commit example_reordered) = 50"
    by (simp add: commit_display_range_km) (simp add: example_reordered_def example_display_def)
  have "currentAircrafts example_reordered ! 2 =
        aircraft_SWA789\<lparr>on_screen := 1, screen_x := 139, screen_y := 175\<rparr>"
    by (simp add: example_reordered_def example_display_def)
  moreover have "callsign aircraft_JBU321 \<noteq> callsign aircraft_SWA789"
    by (simp add: aircraft_JBU321_def aircraft_SWA789_def)
  moreover have "\<not> selection_lost ideal_platform (commit example_reordered)
                     (nat (stagingAircraftCount example_reordered))"
    using JBU321_within_range by (simp add: selection_lost_def s c r)
  ultimately show ?thesis
    by (simp add: c s s0 Update_Current_Aircrafts_Thread_selectedAircraft [OF example_reordered_ok])
qed

text \<open>
  C2 (the code departs from it). \<open>SWA789\<close> is selected at index 2 and the burst does not
  carry it. After the commit, and after the whole round of the thread, the selection
  is still 2 and not \<open>-1\<close>: the critical section never assigns \<open>-1\<close>.
\<close>

theorem commit_keeps_index_of_departed:
  "selectedAircraft example_departed = 2 \<and>
   callsign (currentAircrafts example_departed ! 2) = callsign aircraft_SWA789 \<and>
   currentAircraftCount (commit example_departed) = 3 \<and>
   list_all (\<lambda>a. callsign a \<noteq> callsign aircraft_SWA789)
     (take 3 (currentAircrafts (commit example_departed))) \<and>
   selectedAircraft (commit example_departed) = 2 \<and>
   selectedAircraft (Update_Current_Aircrafts_Thread ideal_platform example_departed) = 2"
proof -
  have c: "currentAircrafts (commit example_departed) =
           aircraft_UAL123 # aircraft_DAL456 # aircraft_JBU321 # aircraft_DAL456 #
           replicate 196 zero_aircraft"
    by (simp add: commit_currentAircrafts [OF example_departed_ok])
       (simp add: example_departed_def example_display_def)
  have n: "currentAircraftCount (commit example_departed) = 3"
    by (simp add: commit_def Let_def replace_loop_staging) (simp add: example_departed_def)
  have s0: "selectedAircraft example_departed = 2"
    by (simp add: example_departed_def)
  have s: "selectedAircraft (commit example_departed) = 2"
    by (simp add: commit_selectedAircraft s0)
  have r: "display_range_km (commit example_departed) = 50"
    by (simp add: commit_display_range_km) (simp add: example_departed_def example_display_def)
  have "currentAircrafts example_departed ! 2 =
        aircraft_SWA789\<lparr>on_screen := 1, screen_x := 139, screen_y := 175\<rparr>"
    by (simp add: example_departed_def example_display_def)
  moreover have "list_all (\<lambda>a. callsign a \<noteq> callsign aircraft_SWA789)
                   [aircraft_UAL123, aircraft_DAL456, aircraft_JBU321]"
    by (simp add: aircraft_UAL123_def aircraft_DAL456_def aircraft_JBU321_def aircraft_SWA789_def)
  moreover have "\<not> selection_lost ideal_platform (commit example_departed)
                     (nat (stagingAircraftCount example_departed))"
    using JBU321_within_range by (simp add: selection_lost_def s c r)
  ultimately show ?thesis
    by (simp add: c n s s0 Update_Current_Aircrafts_Thread_selectedAircraft [OF example_departed_ok])
qed

section \<open>Properties of the byte reassembly\<close>

lemma UART4_Handler_append:
  "UART4_Handler (xs @ ys) u =
     (fst (UART4_Handler ys (fst (UART4_Handler xs u))),
      snd (UART4_Handler xs u) @ snd (UART4_Handler ys (fst (UART4_Handler xs u))))"
  by (induction xs arbitrary: u) (simp_all add: Let_def)

lemma receive_byte_index:
  "byte_index (fst (receive_byte b u)) = (if byte_index u + 1 = 4 then 0 else byte_index u + 1)"
  by (simp add: receive_byte_def Let_def)

lemma receive_byte_buffer:
  "byte_buffer (fst (receive_byte b u)) = (byte_buffer u)[unat (byte_index u) := b]"
  by (simp add: receive_byte_def Let_def)

lemma next_index_below_4: "x < 4 \<Longrightarrow> x + 1 \<noteq> 4 \<Longrightarrow> x + 1 < (4::8 word)"
  by unat_arith

lemma receive_byte_ok: "uart_ok u \<Longrightarrow> uart_ok (fst (receive_byte b u))"
  by (auto simp: uart_ok_def receive_byte_index receive_byte_buffer next_index_below_4)

lemma index_cases: "x < (4::8 word) \<Longrightarrow> x = 0 \<or> x = 1 \<or> x = 2 \<or> x = 3"
  by unat_arith


lemma next_index_unat:
  "x < (4::8 word) \<Longrightarrow> unat (if x + 1 = 4 then 0 else x + 1) = (unat x + 1) mod 4"
  using index_cases [of x] by auto

lemma UART4_Handler_index:
  "uart_ok u \<Longrightarrow>
   uart_ok (fst (UART4_Handler xs u)) \<and>
   unat (byte_index (fst (UART4_Handler xs u))) = (unat (byte_index u) + length xs) mod 4"
proof (induction xs arbitrary: u)
  case Nil
  then have "unat (byte_index u) < 4"
    by (simp add: uart_ok_def word_less_nat_alt)
  with Nil show ?case by simp
next
  case (Cons b xs)
  let ?u1 = "fst (receive_byte b u)"
  have ok1: "uart_ok ?u1" using Cons.prems by (rule receive_byte_ok)
  have lt: "byte_index u < 4" using Cons.prems by (simp add: uart_ok_def)
  have "unat (byte_index ?u1) = (unat (byte_index u) + 1) mod 4"
    by (simp only: receive_byte_index next_index_unat [OF lt])
  then have "(unat (byte_index ?u1) + length xs) mod 4 = (unat (byte_index u) + length (b # xs)) mod 4"
    by (simp add: mod_add_left_eq add.assoc)
  then show ?case
    using Cons.IH [OF ok1] by (simp add: Let_def)
qed

lemma UART4_Handler_boundary:
  assumes "uart_ok u" and "byte_index u = 0" and "length pre mod 4 = 0"
  shows "uart_ok (fst (UART4_Handler pre u)) \<and> byte_index (fst (UART4_Handler pre u)) = 0"
proof -
  have "unat (byte_index (fst (UART4_Handler pre u))) = 0"
    using UART4_Handler_index [OF assms(1), of pre] assms(2,3) by simp
  then show ?thesis
    using UART4_Handler_index [OF assms(1), of pre] by (simp add: unat_eq_0)
qed

lemma receive_byte_partial:
  "byte_index u + 1 \<noteq> 4 \<Longrightarrow> filter not_ready (snd (receive_byte b u)) = []"
  by (simp add: receive_byte_def Let_def not_ready_def)

lemma receive_byte_complete:
  assumes "byte_index u + 1 = 4"
  shows "filter not_ready (snd (receive_byte b u)) =
           (if assemble_word ((byte_buffer u)[unat (byte_index u) := b]) = 0xFFFFFFFF
            then [Signal_BURST_COMPLETE]
            else [WriteFIFO_DATA (assemble_word ((byte_buffer u)[unat (byte_index u) := b]))])"
    and "assemble_word ((byte_buffer u)[unat (byte_index u) := b]) = 0xFFFFFFFF \<Longrightarrow>
         message_byte_count (fst (receive_byte b u)) = 0"
  using assms by (simp_all add: receive_byte_def Let_def not_ready_def MESSAGE_SIZE_def)

lemma group_of_four:
  assumes "uart_ok u" and "byte_index u = 0"
  shows "filter not_ready (snd (UART4_Handler [b0, b1, b2, b3] u)) =
           (if assemble_word [b0, b1, b2, b3] = 0xFFFFFFFF then [Signal_BURST_COMPLETE]
            else [WriteFIFO_DATA (assemble_word [b0, b1, b2, b3])])"
    and "assemble_word [b0, b1, b2, b3] = 0xFFFFFFFF \<Longrightarrow>
         message_byte_count (fst (UART4_Handler [b0, b1, b2, b3] u)) = 0"
proof -
  let ?u1 = "fst (receive_byte b0 u)"
  let ?u2 = "fst (receive_byte b1 ?u1)"
  let ?u3 = "fst (receive_byte b2 ?u2)"
  obtain x0 x1 x2 x3 where buf: "byte_buffer u = [x0, x1, x2, x3]"
  proof -
    have "length (byte_buffer u) = 4" using assms(1) by (simp add: uart_ok_def)
    then show ?thesis
      using that by (auto simp: length_Suc_conv numeral_eq_Suc)
  qed
  have i1: "byte_index ?u1 = 1" and b1: "byte_buffer ?u1 = [b0, x1, x2, x3]"
    by (simp_all add: receive_byte_index [of b0 u] receive_byte_buffer [of b0 u] assms(2) buf)
  have i2: "byte_index ?u2 = 2" and b2: "byte_buffer ?u2 = [b0, b1, x2, x3]"
    by (simp_all add: receive_byte_index [of b1 ?u1] receive_byte_buffer [of b1 ?u1] i1 b1)
  have i3: "byte_index ?u3 = 3" and b3: "byte_buffer ?u3 = [b0, b1, b2, x3]"
    by (simp_all add: receive_byte_index [of b2 ?u2] receive_byte_buffer [of b2 ?u2] i2 b2)
  have p0: "filter not_ready (snd (receive_byte b0 u)) = []"
    by (rule receive_byte_partial) (simp add: assms(2))
  have p1: "filter not_ready (snd (receive_byte b1 ?u1)) = []"
    by (rule receive_byte_partial) (simp add: i1)
  have p2: "filter not_ready (snd (receive_byte b2 ?u2)) = []"
    by (rule receive_byte_partial) (simp add: i2)
  have c3: "byte_index ?u3 + 1 = 4" by (simp add: i3)
  have upd: "(byte_buffer ?u3)[unat (byte_index ?u3) := b3] = [b0, b1, b2, b3]"
    by (simp add: i3 b3)
  show "filter not_ready (snd (UART4_Handler [b0, b1, b2, b3] u)) =
           (if assemble_word [b0, b1, b2, b3] = 0xFFFFFFFF then [Signal_BURST_COMPLETE]
            else [WriteFIFO_DATA (assemble_word [b0, b1, b2, b3])])"
    using receive_byte_complete(1) [OF c3, of b3]
    by (simp add: Let_def p0 p1 p2 upd)
  show "assemble_word [b0, b1, b2, b3] = 0xFFFFFFFF \<Longrightarrow>
         message_byte_count (fst (UART4_Handler [b0, b1, b2, b3] u)) = 0"
    using receive_byte_complete(2) [OF c3, of b3]
    by (simp add: Let_def upd)
qed

lemma assemble_word_bytes:
  "ucast (assemble_word [b0, b1, b2, b3]) = b0"
  "ucast (drop_bit 8 (assemble_word [b0, b1, b2, b3])) = b1"
  "ucast (drop_bit 16 (assemble_word [b0, b1, b2, b3])) = b2"
  "ucast (drop_bit 24 (assemble_word [b0, b1, b2, b3])) = b3"
  by (rule bit_word_eqI; auto simp: assemble_word_def bit_simps dest: bit_imp_le_length)+

lemma w1: "(ucast (0xFF :: 8 word) OR push_bit 8 (ucast (0xFF :: 8 word)) OR
            push_bit 16 (ucast (0xFF :: 8 word)) OR push_bit 24 (ucast (0xFF :: 8 word)) :: 32 word) =
           0xFFFFFFFF"
    by simp
lemma w2: "(ucast (0x55 :: 8 word) OR push_bit 8 (ucast (0x41 :: 8 word)) OR
            push_bit 16 (ucast (0x4C :: 8 word)) OR push_bit 24 (ucast (0x31 :: 8 word)) :: 32 word) =
           0x314C4155"
    by simp
lemma ne: "(0x314C4155 :: 32 word) \<noteq> 0xFFFFFFFF" by simp

lemma run_pair: "UART4_Handler [0x55, 0x41, 0x4C, 0x31, 0xFF, 0xFF, 0xFF, 0xFF] uart_initial =
   (\<lparr>byte_buffer = [0xFF, 0xFF, 0xFF, 0xFF], byte_index = 0, message_byte_count = 0\<rparr>,
    [WriteFIFO_DATA 0x314C4155, Signal_BURST_COMPLETE])"
  by code_simp

lemma run: "snd (UART4_Handler [0x55, 0x41, 0x4C, 0x31, 0xFF, 0xFF, 0xFF, 0xFF] uart_initial) =
             [WriteFIFO_DATA 0x314C4155, Signal_BURST_COMPLETE]"
  by (simp only: run_pair snd_conv)

text \<open>
  C4. Starting at a group boundary (the buffer index is 0, as it is initially and
  after every multiple of 4 bytes), the next four bytes \<open>b0 b1 b2 b3\<close> form the word
  whose least significant byte is \<open>b0\<close> and most significant byte \<open>b3\<close>. While they are
  received the handler makes, apart from data-ready signals, exactly one call: the
  burst-complete signal when the word is \<open>0xFFFFFFFF\<close>, in which case no word is written
  to the FIFO and the message byte counter ends at 0, and otherwise the FIFO write of
  that word. The handler is at a group boundary again afterwards.
\<close>

theorem reassembler_groups_of_four:
  assumes "uart_ok u" and "byte_index u = 0" and "length pre mod 4 = 0"
  shows "(let word = (ucast b0 OR push_bit 8 (ucast b1) OR push_bit 16 (ucast b2) OR
                      push_bit 24 (ucast b3) :: 32 word);
              before = UART4_Handler pre u;
              after = UART4_Handler (pre @ [b0, b1, b2, b3]) u
          in ucast word = b0 \<and> ucast (drop_bit 8 word) = b1 \<and>
             ucast (drop_bit 16 word) = b2 \<and> ucast (drop_bit 24 word) = b3 \<and>
             (\<exists>calls. snd after = snd before @ calls \<and>
                filter (\<lambda>c. c \<noteq> Signal_DATA_READY) calls =
                  (if word = 0xFFFFFFFF then [Signal_BURST_COMPLETE] else [WriteFIFO_DATA word])) \<and>
             (word = 0xFFFFFFFF \<longrightarrow> message_byte_count (fst after) = 0) \<and>
             uart_ok (fst after) \<and> byte_index (fst after) = 0)"
proof -
  let ?u1 = "fst (UART4_Handler pre u)"
  let ?grp = "[b0, b1, b2, b3]"
  let ?w = "ucast b0 OR push_bit 8 (ucast b1) OR push_bit 16 (ucast b2) OR
            push_bit 24 (ucast b3) :: 32 word"
  have w: "assemble_word ?grp = ?w"
    by (simp add: assemble_word_def)
  have bnd: "uart_ok ?u1" "byte_index ?u1 = 0"
    using UART4_Handler_boundary [OF assms] by simp_all
  have app: "UART4_Handler (pre @ ?grp) u =
             (fst (UART4_Handler ?grp ?u1), snd (UART4_Handler pre u) @ snd (UART4_Handler ?grp ?u1))"
    by (rule UART4_Handler_append)
  have len: "length (pre @ ?grp) mod 4 = 0"
    using assms(3) by simp
  have fin: "uart_ok (fst (UART4_Handler (pre @ ?grp) u))"
            "byte_index (fst (UART4_Handler (pre @ ?grp) u)) = 0"
    using UART4_Handler_boundary [OF assms(1,2) len] by simp_all
  have calls: "filter (\<lambda>c. c \<noteq> Signal_DATA_READY) (snd (UART4_Handler ?grp ?u1)) =
        (if ?w = 0xFFFFFFFF then [Signal_BURST_COMPLETE] else [WriteFIFO_DATA ?w])"
    using group_of_four(1) [OF bnd, of b0 b1 b2 b3]
    unfolding w by (simp only: not_ready_def [abs_def])
  have cnt: "?w = 0xFFFFFFFF \<longrightarrow> message_byte_count (fst (UART4_Handler (pre @ ?grp) u)) = 0"
    using group_of_four(2) [OF bnd, of b0 b1 b2 b3]
    unfolding w app by (simp only: fst_conv) blast
  have ex: "\<exists>calls. snd (UART4_Handler (pre @ ?grp) u) = snd (UART4_Handler pre u) @ calls \<and>
              filter (\<lambda>c. c \<noteq> Signal_DATA_READY) calls =
                (if ?w = 0xFFFFFFFF then [Signal_BURST_COMPLETE] else [WriteFIFO_DATA ?w])"
  proof (intro exI conjI)
    show "snd (UART4_Handler (pre @ ?grp) u) =
          snd (UART4_Handler pre u) @ snd (UART4_Handler ?grp ?u1)"
      unfolding app by (simp only: snd_conv)
    show "filter (\<lambda>c. c \<noteq> Signal_DATA_READY) (snd (UART4_Handler ?grp ?u1)) =
          (if ?w = 0xFFFFFFFF then [Signal_BURST_COMPLETE] else [WriteFIFO_DATA ?w])"
      by (rule calls)
  qed
  have bytes: "ucast ?w = b0" "ucast (drop_bit 8 ?w) = b1"
              "ucast (drop_bit 16 ?w) = b2" "ucast (drop_bit 24 ?w) = b3"
    using assemble_word_bytes [of b0 b1 b2 b3] unfolding w by blast+
  show ?thesis
    unfolding Let_def
    by (intro conjI bytes ex cnt fin)
qed

theorem reassembler_groups_of_four_witness:
  "uart_ok uart_initial \<and> byte_index uart_initial = 0 \<and>
   length [0x55, 0x41, 0x4C, 0x31 :: 8 word] mod 4 = 0 \<and>
   (\<exists>calls.
      snd (UART4_Handler ([0x55, 0x41, 0x4C, 0x31] @ [0xFF, 0xFF, 0xFF, 0xFF]) uart_initial) =
        snd (UART4_Handler [0x55, 0x41, 0x4C, 0x31] uart_initial) @ calls \<and>
      filter (\<lambda>c. c \<noteq> Signal_DATA_READY) calls = [Signal_BURST_COMPLETE]) \<and>
   message_byte_count
     (fst (UART4_Handler ([0x55, 0x41, 0x4C, 0x31] @ [0xFF, 0xFF, 0xFF, 0xFF]) uart_initial)) = 0 \<and>
   (\<exists>calls.
      snd (UART4_Handler ([] @ [0x55, 0x41, 0x4C, 0x31]) uart_initial) =
        snd (UART4_Handler [] uart_initial) @ calls \<and>
      filter (\<lambda>c. c \<noteq> Signal_DATA_READY) calls = [WriteFIFO_DATA 0x314C4155]) \<and>
   snd (UART4_Handler [0x55, 0x41, 0x4C, 0x31, 0xFF, 0xFF, 0xFF, 0xFF] uart_initial) =
     [WriteFIFO_DATA 0x314C4155, Signal_BURST_COMPLETE]"
proof -
  have ok: "uart_ok uart_initial" and idx: "byte_index uart_initial = 0"
    by (simp_all add: uart_ok_def uart_initial_def)
  have len: "length [0x55, 0x41, 0x4C, 0x31 :: 8 word] mod 4 = 0" by simp
  have len0: "length ([] :: 8 word list) mod 4 = 0" by simp
  note t1 = reassembler_groups_of_four [OF ok idx len, of "0xFF" "0xFF" "0xFF" "0xFF",
      unfolded Let_def w1]
  note t2 = reassembler_groups_of_four [OF ok idx len0, of "0x55" "0x41" "0x4C" "0x31",
      unfolded Let_def w2]
  have a: "\<exists>calls.
      snd (UART4_Handler ([0x55, 0x41, 0x4C, 0x31] @ [0xFF, 0xFF, 0xFF, 0xFF]) uart_initial) =
        snd (UART4_Handler [0x55, 0x41, 0x4C, 0x31] uart_initial) @ calls \<and>
      filter (\<lambda>c. c \<noteq> Signal_DATA_READY) calls = [Signal_BURST_COMPLETE]"
    using t1 by (simp only: if_True simp_thms)
  have b: "message_byte_count
     (fst (UART4_Handler ([0x55, 0x41, 0x4C, 0x31] @ [0xFF, 0xFF, 0xFF, 0xFF]) uart_initial)) = 0"
    using t1 by blast
  have c: "\<exists>calls.
      snd (UART4_Handler ([] @ [0x55, 0x41, 0x4C, 0x31]) uart_initial) =
        snd (UART4_Handler [] uart_initial) @ calls \<and>
      filter (\<lambda>c. c \<noteq> Signal_DATA_READY) calls = [WriteFIFO_DATA 0x314C4155]"
    using t2 ne by (simp only: if_False simp_thms)
  show ?thesis
    by (intro conjI ok idx len a b c run)
qed

section \<open>Properties of the record decoding\<close>

lemma below_0x80_bit7: "x < (0x80::8 word) \<Longrightarrow> \<not> bit x 7"
proof -
  assume "x < 0x80"
  then have "x < 2 ^ 7" by simp
  then have "x AND mask 7 = x" by (rule less_mask_eq)
  then have "bit x 7 = bit (x AND mask 7) 7" by simp
  then show ?thesis by (simp add: bit_simps)
qed

lemma ascii_word0_nonnegative:
  assumes "wire_byte word0 word1 3 < 0x80"
  shows "\<not> bit word0 31"
  using below_0x80_bit7 [OF assms] by (simp add: wire_byte_def bit_simps)

lemma byte_mask: "(0xFF :: 64 word) = mask 8"
  by (simp add: mask_eq_exp_minus_1)

lemma upt_7: "[0..<7] = [0, 1, 2, 3, 4, 5, 6::nat]"
  by code_simp

lemma callsign_char_low:
  "callsign_char (callsign_raw word0 word1) 0 = wire_byte word0 word1 0"
  "callsign_char (callsign_raw word0 word1) 1 = wire_byte word0 word1 1"
  "callsign_char (callsign_raw word0 word1) 2 = wire_byte word0 word1 2"
  "callsign_char (callsign_raw word0 word1) 3 = wire_byte word0 word1 3"
  by (rule bit_word_eqI;
      simp add: callsign_char_def callsign_raw_def wire_byte_def byte_mask bit_simps min.absorb2)+

lemma callsign_char_high:
  assumes "\<not> bit word0 31"
  shows "callsign_char (callsign_raw word0 word1) 4 = wire_byte word0 word1 4"
        "callsign_char (callsign_raw word0 word1) 5 = wire_byte word0 word1 5"
        "callsign_char (callsign_raw word0 word1) 6 = wire_byte word0 word1 6"
  using assms
  by (rule_tac [!] bit_word_eqI)
     (simp_all add: callsign_char_def callsign_raw_def wire_byte_def byte_mask bit_simps
        min.absorb2 min.absorb1)


lemma strncpy_c_no_NUL:
  assumes "length xs = 7" and "\<forall>c\<in>set xs. c \<noteq> 0"
  shows "take 7 (strncpy_c (xs @ [c]) 8) = xs"
proof -
  have "takeWhile (\<lambda>c. c \<noteq> 0) (xs @ [c]) = xs @ takeWhile (\<lambda>c. c \<noteq> 0) [c]"
    using assms(2) by (simp add: takeWhile_append2)
  then show ?thesis
    using assms(1) by (simp add: strncpy_c_def Let_def)
qed

lemma strncpy_c_literal: "strncpy_c literal_NA_padded 8 = literal_NA_padded"
  by (simp add: strncpy_c_def literal_NA_padded_def)

lemma local_callsign_eq:
  assumes "ascii_identifier word0 word1"
  shows "local_callsign word0 word1 stack_byte =
         (if wire_byte word0 word1 0 = 0x20 then literal_NA_padded
          else map (wire_byte word0 word1) [0..<7] @ [stack_byte])"
proof -
  have "wire_byte word0 word1 3 < 0x80"
    using assms by (simp add: ascii_identifier_def upt_7)
  then have nn: "\<not> bit word0 31" by (rule ascii_word0_nonnegative)
  have "map (callsign_char (callsign_raw word0 word1)) [0..<7] = map (wire_byte word0 word1) [0..<7]"
    by (simp only: upt_7 list.map callsign_char_low callsign_char_high [OF nn])
  then show ?thesis
    by (simp add: local_callsign_def Let_def strncpy_c_literal) (simp add: upt_7)
qed

lemma wit_ids:
  "ascii_identifier 0x314C4155 0x00203332"
  "no_NUL_identifier 0x314C4155 0x00203332"
  "ascii_identifier 0x20202020 0x00202020"
  "no_NUL_identifier 0x20202020 0x00202020"
  by (simp_all add: ascii_identifier_def no_NUL_identifier_def upt_7 wire_byte_def)

lemma replicate_6: "replicate 6 x = [x, x, x, x, x, x]"
  by (simp add: numeral_eq_Suc)

lemma cx_local:
  "local_callsign 0x44004241 0x00474645 0 = [0x41, 0x42, 0, 0x44, 0x45, 0x46, 0x47, 0]"
  by (simp add: upt_7 local_callsign_def Let_def callsign_char_def callsign_raw_def)

lemma cx_strncpy:
  "strncpy_c [0x41, 0x42, 0, 0x44, 0x45, 0x46, 0x47, 0] 8 = [0x41, 0x42, 0, 0, 0, 0, 0, 0]"
  by (simp add: strncpy_c_def replicate_6)

lemma cx_callsign:
  "callsign (decode_aircraft ideal_platform zero_aircraft 0
               [0x44004241, 0x00474645, 0, 0, 0, 0, 0]) =
     [0x41, 0x42, 0, 0, 0, 0, 0, 0]"
  by (simp add: decode_aircraft_def Let_def cx_local cx_strncpy)

text \<open>
  C5 (amended). For seven FIFO words whose first two carry seven identifier bytes
  that are ASCII (below \<open>0x80\<close>) and not NUL: the first seven bytes of the decoded
  identifier are the four bytes of word 0 and the low three bytes of word 1, least
  significant first, or \<open>N/A\<close> padded with four blanks when the first byte is a space;
  and longitude, latitude, altitude, velocity and heading are words 2 to 6 read as
  signed 32-bit integers, converted to float and divided by 10000.
\<close>

theorem decode_aircraft_fields:
  assumes "ascii_identifier word0 word1" and "no_NUL_identifier word0 word1"
  shows "(let a = decode_aircraft E stack_data stack_byte
                    [word0, word1, longitude_int, latitude_int, altitude_int, velocity_int, heading_int]
          in take 7 (callsign a) =
               (if (ucast word0 :: 8 word) = 0x20
                then [0x4E, 0x2F, 0x41, 0x20, 0x20, 0x20, 0x20]
                else [ucast word0, ucast (drop_bit 8 word0), ucast (drop_bit 16 word0),
                      ucast (drop_bit 24 word0),
                      ucast word1, ucast (drop_bit 8 word1), ucast (drop_bit 16 word1)]) \<and>
             longitude a = float_of_int E (sint longitude_int) / flit E 10000 \<and>
             latitude a = float_of_int E (sint latitude_int) / flit E 10000 \<and>
             altitude a = float_of_int E (sint altitude_int) / flit E 10000 \<and>
             velocity a = float_of_int E (sint velocity_int) / flit E 10000 \<and>
             heading a = float_of_int E (sint heading_int) / flit E 10000)"
proof -
  let ?wire = "map (wire_byte word0 word1) [0..<7]"
  have len: "length ?wire = 7" by simp
  have nz: "\<forall>c\<in>set ?wire. c \<noteq> 0"
    using assms(2) by (simp add: no_NUL_identifier_def list_all_iff)
  have cs: "take 7 (strncpy_c (local_callsign word0 word1 stack_byte) 8) =
            (if wire_byte word0 word1 0 = 0x20 then take 7 literal_NA_padded else ?wire)"
    using strncpy_c_no_NUL [OF len nz, of stack_byte]
    by (simp add: local_callsign_eq [OF assms(1)] strncpy_c_literal)
  have w: "?wire = [ucast word0, ucast (drop_bit 8 word0), ucast (drop_bit 16 word0),
                    ucast (drop_bit 24 word0),
                    ucast word1, ucast (drop_bit 8 word1), ucast (drop_bit 16 word1)]"
    by (simp add: upt_7 wire_byte_def)
  have w0: "wire_byte word0 word1 0 = ucast word0"
    by (simp add: wire_byte_def)
  have lit: "take 7 literal_NA_padded = [0x4E, 0x2F, 0x41, 0x20, 0x20, 0x20, 0x20]"
    by (simp add: literal_NA_padded_def)
  show ?thesis
    using cs by (simp add: decode_aircraft_def Let_def w w0 lit)
qed

theorem decode_aircraft_fields_witness:
  "ascii_identifier 0x314C4155 0x00203332 \<and>
   no_NUL_identifier 0x314C4155 0x00203332 \<and>
   take 7 (callsign (decode_aircraft ideal_platform zero_aircraft 0
                       [0x314C4155, 0x00203332, - 823533, 296465, 100000000, 2300000, 900000])) =
     [0x55, 0x41, 0x4C, 0x31, 0x32, 0x33, 0x20] \<and>
   longitude (decode_aircraft ideal_platform zero_aircraft 0
                [0x314C4155, 0x00203332, - 823533, 296465, 100000000, 2300000, 900000]) =
     - 823533 / 10000 \<and>
   latitude (decode_aircraft ideal_platform zero_aircraft 0
                [0x314C4155, 0x00203332, - 823533, 296465, 100000000, 2300000, 900000]) =
     296465 / 10000 \<and>
   ascii_identifier 0x20202020 0x00202020 \<and>
   no_NUL_identifier 0x20202020 0x00202020 \<and>
   take 7 (callsign (decode_aircraft ideal_platform zero_aircraft 0
                       [0x20202020, 0x00202020, 0, 0, 0, 0, 0])) =
     [0x4E, 0x2F, 0x41, 0x20, 0x20, 0x20, 0x20]"
proof -
  let ?a = "decode_aircraft ideal_platform zero_aircraft 0
              [0x314C4155, 0x00203332, - 823533, 296465, 100000000, 2300000, 900000]"
  let ?b = "decode_aircraft ideal_platform zero_aircraft 0 [0x20202020, 0x00202020, 0, 0, 0, 0, 0]"
  have lit: "flit ideal_platform 10000 = 10000" "float_of_int ideal_platform = of_int"
    by (simp_all add: ideal_platform_def)
  have s: "sint (- 823533 :: 32 word) = - 823533" "sint (296465 :: 32 word) = 296465"
    by simp_all
  have u: "(ucast (0x314C4155 :: 32 word) :: 8 word) \<noteq> 0x20"
          "(ucast (0x20202020 :: 32 word) :: 8 word) = 0x20"
    by simp_all
  have bytes: "[ucast (0x314C4155 :: 32 word), ucast (drop_bit 8 (0x314C4155 :: 32 word)),
                ucast (drop_bit 16 (0x314C4155 :: 32 word)), ucast (drop_bit 24 (0x314C4155 :: 32 word)),
                ucast (0x00203332 :: 32 word), ucast (drop_bit 8 (0x00203332 :: 32 word)),
                ucast (drop_bit 16 (0x00203332 :: 32 word))] =
               ([0x55, 0x41, 0x4C, 0x31, 0x32, 0x33, 0x20] :: 8 word list)"
    by simp
  have a: "take 7 (callsign ?a) = [0x55, 0x41, 0x4C, 0x31, 0x32, 0x33, 0x20] \<and>
           longitude ?a = - 823533 / 10000 \<and> latitude ?a = 296465 / 10000"
    using decode_aircraft_fields [OF wit_ids(1,2), of ideal_platform zero_aircraft 0
        "- 823533" 296465 100000000 2300000 900000]
    unfolding Let_def by (simp only: u if_False bytes lit s) simp
  have b: "take 7 (callsign ?b) = [0x4E, 0x2F, 0x41, 0x20, 0x20, 0x20, 0x20]"
    using decode_aircraft_fields [OF wit_ids(3,4), of ideal_platform zero_aircraft 0 0 0 0 0 0]
    unfolding Let_def by (simp only: u if_True) simp
  show ?thesis
    using a b wit_ids by (simp only: simp_thms)
qed

text \<open>
  C5 as stated fails where one of the seven ASCII bytes is NUL: the record's
  identifier is filled by \<open>strncpy\<close>, which stops at the NUL and pads with NULs. For the
  bytes \<open>A B NUL D E F G\<close> the identifier becomes \<open>A B\<close> and six NULs, so its byte 4 is
  not the low byte of word 1.
\<close>

theorem decode_truncates_at_NUL:
  "ascii_identifier 0x44004241 0x00474645 \<and>
   (ucast (0x44004241 :: 32 word) :: 8 word) \<noteq> 0x20 \<and>
   callsign (decode_aircraft ideal_platform zero_aircraft 0
               [0x44004241, 0x00474645, 0, 0, 0, 0, 0]) =
     [0x41, 0x42, 0, 0, 0, 0, 0, 0] \<and>
   callsign (decode_aircraft ideal_platform zero_aircraft 0
               [0x44004241, 0x00474645, 0, 0, 0, 0, 0]) ! 4 \<noteq>
     ucast (0x00474645 :: 32 word)"
proof -
  have "ascii_identifier 0x44004241 0x00474645"
    by (simp add: ascii_identifier_def upt_7 wire_byte_def)
  moreover have "(ucast (0x44004241 :: 32 word) :: 8 word) \<noteq> 0x20"
    by simp
  moreover have "([0x41, 0x42, 0, 0, 0, 0, 0, 0] :: 8 word list) ! 4 \<noteq> ucast (0x00474645 :: 32 word)"
    by simp
  ultimately show ?thesis
    by (simp only: cx_callsign simp_thms)
qed

end
